theory Spec2Isabelle
  imports Main "HOL-Library.AList"
begin

text \<open>
  A shallow embedding of \<open>ceilometer/event/converter.py\<close>: the classes
  \<open>TraitDefinition\<close>, \<open>EventDefinition\<close> and \<open>NotificationEventsConverter\<close>, which
  turn a notification into an event according to an ordered list of event definitions.
  A function that can raise returns a sum, the exception on the left. The library
  functions the converter calls are modelled where a property depends on what they
  compute (glob matching, path queries, \<open>int\<close>) and are parameters otherwise.
\<close>

section \<open>Notification documents and errors\<close>

text \<open>
  A notification body is a deserialized JSON-like document: the Python value \<open>None\<close>,
  booleans, integers, strings, lists and dictionaries with string keys. A dictionary is an
  association list read with \<open>map_of\<close>. Floating-point payload values are outside the
  document model.
\<close>

datatype json =
    JNull
  | JBool bool
  | JInt int
  | JStr string
  | JList "json list"
  | JDict "(string \<times> json) list"

text \<open>The exceptions the converter and the functions it calls can raise.\<close>

datatype error = KeyError | TypeError | ValueError | EventDefinitionException

section \<open>Glob matching of event types\<close>

text \<open>
  Modelled from the spec: \<open>fnmatch.fnmatch\<close> belongs to the Python standard library
  and is not among the sources. The spec gives it as shell-glob matching in which
  \<open>*\<close> stands for any run of characters and \<open>?\<close> for a single character, every other
  character of the pattern standing for itself. The first argument is the candidate name,
  the second the pattern, as in the library. The library's bracket expressions
  (\<open>[seq]\<close>) and its normalisation of case on some platforms are not in the spec's
  description and are not modelled.
\<close>

fun fnmatch :: "string \<Rightarrow> string \<Rightarrow> bool" where
  "fnmatch [] [] = True"
| "fnmatch (c # cs) [] = False"
| "fnmatch [] (p # ps) = (p = CHR ''*'' \<and> fnmatch [] ps)"
| "fnmatch (c # cs) (p # ps) =
     (if p = CHR ''*'' then fnmatch (c # cs) ps \<or> fnmatch cs (p # ps)
      else if p = CHR ''?'' then fnmatch cs ps
      else p = c \<and> fnmatch cs ps)"

section \<open>Path queries over a document\<close>

text \<open>
  Modelled from the spec: the path-query library \<open>jsonpath_rw\<close> is not among the
  sources. The spec gives a compiled query as key access into nested mappings
  (\<open>Fields\<close>), composed by descent (\<open>Child\<close>) and by union of alternatives
  (\<open>Union_path\<close>, the library's \<open>Union\<close>); evaluation yields the values found,
  alternatives in declared order, and a missing key, or a key access into something that
  is not a mapping, yields no match.
\<close>

datatype jsonpath =
    Fields string
  | Child jsonpath jsonpath
  | Union_path jsonpath jsonpath

fun jsonpath_find :: "jsonpath \<Rightarrow> json \<Rightarrow> json list" where
  "jsonpath_find (Fields k) d =
     (case d of
        JDict kvs \<Rightarrow> (case map_of kvs k of None \<Rightarrow> [] | Some v \<Rightarrow> [v])
      | _ \<Rightarrow> [])"
| "jsonpath_find (Child l r) d = concat (map (jsonpath_find r) (jsonpath_find l d))"
| "jsonpath_find (Union_path l r) d = jsonpath_find l d @ jsonpath_find r d"

section \<open>Trait types and value conversion\<close>

text \<open>
  Modelled from the spec: the constants \<open>models.Trait.TEXT_TYPE\<close>, \<open>INT_TYPE\<close>,
  \<open>FLOAT_TYPE\<close> and \<open>DATETIME_TYPE\<close>, and the classes \<open>models.Trait\<close> and
  \<open>models.Event\<close>, are declared outside the sources; the spec names the four kinds
  and the fields of a trait and of an event.
\<close>

datatype trait_type = TEXT_TYPE | INT_TYPE | FLOAT_TYPE | DATETIME_TYPE

datatype ('fl, 'tm) trait_value =
    TextValue string
  | IntValue int
  | FloatValue 'fl
  | DatetimeValue 'tm

record ('fl, 'tm) trait =
  trait_name :: string
  dtype :: trait_type
  trait_value :: "('fl, 'tm) trait_value"

record ('fl, 'tm) event =
  event_name :: json
  generated :: 'tm
  event_traits :: "('fl, 'tm) trait list"

text \<open>
  The library functions whose results the converter only passes on are parameters of the
  model: \<open>float\<close>, the composition \<open>timeutils.normalize_time (timeutils.parse_isotime v)\<close>,
  \<open>str\<close>, and the clock \<open>timeutils.utcnow ()\<close>. The types of floating-point numbers and
  of points in time are left open.
\<close>

record ('fl, 'tm) runtime =
  py_float :: "json \<Rightarrow> error + 'fl"
  parse_time :: "json \<Rightarrow> error + 'tm"
  py_str :: "json \<Rightarrow> string"
  utcnow :: 'tm

text \<open>
  Modelled from the spec: the builtin \<open>int\<close> is not among the sources; the spec gives
  it as parsing a base-10 integer, malformed input being an error. A string is read as
  optional surrounding white space, an optional sign and a non-empty run of decimal
  digits; an integer is returned as it is and a boolean as 0 or 1; \<open>None\<close>, a list
  and a dictionary are a \<open>TypeError\<close>.
\<close>

definition is_space :: "char \<Rightarrow> bool" where
  "is_space c = (c \<in> set [CHR '' '', CHR 0x09, CHR 0x0A, CHR 0x0B, CHR 0x0C, CHR 0x0D])"

definition strip :: "string \<Rightarrow> string" where
  "strip s = rev (dropWhile is_space (rev (dropWhile is_space s)))"

definition is_digit :: "char \<Rightarrow> bool" where
  "is_digit c = (c \<in> set ''0123456789'')"

definition digit_value :: "char \<Rightarrow> int" where
  "digit_value c = int (of_char c) - 48"

fun digits_value :: "int \<Rightarrow> string \<Rightarrow> int option" where
  "digits_value acc [] = Some acc"
| "digits_value acc (c # cs) =
     (if is_digit c then digits_value (10 * acc + digit_value c) cs else None)"

definition parse_digits :: "string \<Rightarrow> int option" where
  "parse_digits s = (if s = [] then None else digits_value 0 s)"

definition int_of_string :: "string \<Rightarrow> int option" where
  "int_of_string s =
     (case strip s of
        [] \<Rightarrow> None
      | c # cs \<Rightarrow>
          if c = CHR ''-'' then map_option uminus (parse_digits cs)
          else if c = CHR ''+'' then parse_digits cs
          else parse_digits (c # cs))"

fun py_int :: "json \<Rightarrow> error + int" where
  "py_int (JInt n) = Inr n"
| "py_int (JBool b) = Inr (if b then 1 else 0)"
| "py_int (JStr s) = (case int_of_string s of None \<Rightarrow> Inl ValueError | Some n \<Rightarrow> Inr n)"
| "py_int JNull = Inl TypeError"
| "py_int (JList xs) = Inl TypeError"
| "py_int (JDict kvs) = Inl TypeError"

fun convert_value ::
  "('fl, 'tm) runtime \<Rightarrow> trait_type \<Rightarrow> json \<Rightarrow> error + ('fl, 'tm) trait_value" where
  "convert_value rt INT_TYPE v =
     (case py_int v of Inl e \<Rightarrow> Inl e | Inr n \<Rightarrow> Inr (IntValue n))"
| "convert_value rt FLOAT_TYPE v =
     (case py_float rt v of Inl e \<Rightarrow> Inl e | Inr x \<Rightarrow> Inr (FloatValue x))"
| "convert_value rt DATETIME_TYPE v =
     (case parse_time rt v of Inl e \<Rightarrow> Inl e | Inr t \<Rightarrow> Inr (DatetimeValue t))"
| "convert_value rt TEXT_TYPE v = Inr (TextValue (py_str rt v))"

section \<open>Trait definitions\<close>

text \<open>
  A trait configuration is the dictionary \<open>trait_cfg\<close>: the optional key \<open>type\<close>
  and the key \<open>fields\<close>, a path expression or a list of path expressions. A path
  expression is represented by what \<open>jsonpath_rw.parse\<close> makes of its text, \<open>None\<close>
  when the text does not parse.
\<close>

datatype fields_cfg =
    FieldsString "jsonpath option"
  | FieldsList "jsonpath option list"

record trait_cfg =
  cfg_type :: "string option"
  cfg_fields :: "fields_cfg option"

record trait_definition =
  name :: string
  fields_path :: jsonpath
  trait_type :: trait_type

text \<open>
  The text \<open>'|'.join('(%s)' % path for path in fields)\<close> parses to the union of the
  parenthesised paths, \<open>|\<close> associating to the left; the join of no path is the empty
  text, which does not parse.
\<close>

fun join_union :: "jsonpath option \<Rightarrow> jsonpath option list \<Rightarrow> jsonpath option" where
  "join_union acc [] = acc"
| "join_union acc (q # qs) =
     join_union (case acc of None \<Rightarrow> None
                 | Some a \<Rightarrow> (case q of None \<Rightarrow> None | Some b \<Rightarrow> Some (Union_path a b))) qs"

definition parse_fields :: "fields_cfg \<Rightarrow> jsonpath option" where
  "parse_fields f =
     (case f of
        FieldsString p \<Rightarrow> p
      | FieldsList ps \<Rightarrow>
          (if length ps = 1 then hd ps
           else (case ps of [] \<Rightarrow> None | q # qs \<Rightarrow> join_union q qs)))"

definition upper_char :: "char \<Rightarrow> char" where
  "upper_char c =
     (case map_of (zip ''abcdefghijklmnopqrstuvwxyz'' ''ABCDEFGHIJKLMNOPQRSTUVWXYZ'') c of
        None \<Rightarrow> c
      | Some u \<Rightarrow> u)"

definition upper :: "string \<Rightarrow> string" where
  "upper s = map upper_char s"

text \<open>
  The attribute \<open>'%s_TYPE' % type_name.upper()\<close> of \<open>models.Trait\<close>, \<open>None\<close>
  when there is none.
\<close>

definition trait_type_named :: "string \<Rightarrow> trait_type option" where
  "trait_type_named type_name =
     (let u = upper type_name in
      if u = ''TEXT'' then Some TEXT_TYPE
      else if u = ''INT'' then Some INT_TYPE
      else if u = ''FLOAT'' then Some FLOAT_TYPE
      else if u = ''DATETIME'' then Some DATETIME_TYPE
      else None)"

definition TraitDefinition_init :: "string \<Rightarrow> trait_cfg \<Rightarrow> error + trait_definition" where
  "TraitDefinition_init nm cfg =
     (let type_name = (case cfg_type cfg of None \<Rightarrow> ''text'' | Some t \<Rightarrow> t) in
      case cfg_fields cfg of
        None \<Rightarrow> Inl EventDefinitionException
      | Some f \<Rightarrow>
          (case parse_fields f of
             None \<Rightarrow> Inl EventDefinitionException
           | Some path \<Rightarrow>
               (case trait_type_named type_name of
                  None \<Rightarrow> Inl EventDefinitionException
                | Some tt \<Rightarrow> Inr \<lparr>name = nm, fields_path = path, trait_type = tt\<rparr>)))"

text \<open>
  \<open>to_trait\<close>: the values found that are not \<open>None\<close>; no trait when there is none,
  otherwise the first one converted. An error of the conversion is the result.
\<close>

definition to_trait ::
  "('fl, 'tm) runtime \<Rightarrow> trait_definition \<Rightarrow> (string \<times> json) list
     \<Rightarrow> error + ('fl, 'tm) trait option" where
  "to_trait rt td notification_body =
     (let values = filter (\<lambda>v. v \<noteq> JNull) (jsonpath_find (fields_path td) (JDict notification_body)) in
      case values of
        [] \<Rightarrow> Inr None
      | v # _ \<Rightarrow>
          (case convert_value rt (trait_type td) v of
             Inl e \<Rightarrow> Inl e
           | Inr x \<Rightarrow> Inr (Some \<lparr>trait_name = name td, dtype = trait_type td, trait_value = x\<rparr>)))"

section \<open>Event definitions\<close>

text \<open>
  An event definition is configured by the dictionary \<open>definition_cfg\<close> with the keys
  \<open>event_type\<close> (a string or a list of strings) and \<open>traits\<close> (a dictionary from
  trait names to trait configurations). Dictionaries are kept in insertion order:
  assigning to a key that is present replaces its value in place, assigning to a new key
  appends it (\<open>AList.update\<close>).
\<close>

datatype event_type_cfg =
    TypeString string
  | TypeList "string list"

record definition_cfg =
  cfg_event_type :: "event_type_cfg option"
  cfg_traits :: "(string \<times> trait_cfg) list option"

record event_definition =
  included_types :: "string list"
  excluded_types :: "string list"
  traits :: "(string \<times> trait_definition) list"

definition DEFAULT_TRAITS :: "(string \<times> trait_cfg) list" where
  "DEFAULT_TRAITS =
     [(''message_id'',
         \<lparr>cfg_type = Some ''text'', cfg_fields = Some (FieldsString (Some (Fields ''message_id'')))\<rparr>),
      (''service'',
         \<lparr>cfg_type = Some ''text'', cfg_fields = Some (FieldsString (Some (Fields ''publisher_id'')))\<rparr>),
      (''request_id'',
         \<lparr>cfg_type = Some ''text'',
          cfg_fields = Some (FieldsString (Some (Fields ''_context_request_id'')))\<rparr>),
      (''tenant_id'',
         \<lparr>cfg_type = Some ''text'', cfg_fields = Some (FieldsString (Some (Fields ''_context_tenant'')))\<rparr>)]"

text \<open>A single string stands for the list of that one entry.\<close>

definition type_entries :: "event_type_cfg \<Rightarrow> string list" where
  "type_entries event_type = (case event_type of TypeString t \<Rightarrow> [t] | TypeList ts \<Rightarrow> ts)"

definition startswith_bang :: "string \<Rightarrow> bool" where
  "startswith_bang t = (case t of [] \<Rightarrow> False | c # _ \<Rightarrow> c = CHR ''!'')"

text \<open>The loop over the entries of \<open>event_type\<close>, appending to the two lists.\<close>

fun split_types :: "string list \<Rightarrow> string list \<Rightarrow> string list \<Rightarrow> string list \<times> string list" where
  "split_types [] inc exc = (inc, exc)"
| "split_types (t # ts) inc exc =
     (if startswith_bang t then split_types ts inc (exc @ [tl t])
      else split_types ts (inc @ [t]) exc)"

text \<open>
  The two loops that fill \<open>self.traits\<close>: each trait definition is built in turn and
  stored under its name; the first one that fails to build raises.
\<close>

fun build_traits ::
  "(string \<times> trait_cfg) list \<Rightarrow> (string \<times> trait_definition) list
     \<Rightarrow> error + (string \<times> trait_definition) list" where
  "build_traits [] acc = Inr acc"
| "build_traits ((nm, cfg) # rest) acc =
     (case TraitDefinition_init nm cfg of
        Inl e \<Rightarrow> Inl e
      | Inr td \<Rightarrow> build_traits rest (AList.update nm td acc))"

text \<open>
  The four default trait definitions, as the first loop builds them from
  \<open>DEFAULT_TRAITS\<close>.
\<close>

definition default_definitions :: "(string \<times> trait_definition) list" where
  "default_definitions =
     [(''message_id'', \<lparr>name = ''message_id'', fields_path = Fields ''message_id'', trait_type = TEXT_TYPE\<rparr>),
      (''service'', \<lparr>name = ''service'', fields_path = Fields ''publisher_id'', trait_type = TEXT_TYPE\<rparr>),
      (''request_id'', \<lparr>name = ''request_id'', fields_path = Fields ''_context_request_id'', trait_type = TEXT_TYPE\<rparr>),
      (''tenant_id'', \<lparr>name = ''tenant_id'', fields_path = Fields ''_context_tenant'', trait_type = TEXT_TYPE\<rparr>)]"

definition EventDefinition_init :: "definition_cfg \<Rightarrow> error + event_definition" where
  "EventDefinition_init definition_cfg =
     (case cfg_event_type definition_cfg of
        None \<Rightarrow> Inl EventDefinitionException
      | Some event_type \<Rightarrow>
          (case cfg_traits definition_cfg of
             None \<Rightarrow> Inl EventDefinitionException
           | Some trait_cfgs \<Rightarrow>
               (let (inc, exc) = split_types (type_entries event_type) [] [];
                    inc' = (if exc \<noteq> [] \<and> inc = [] then inc @ [''*''] else inc)
                in case build_traits DEFAULT_TRAITS [] of
                     Inl e \<Rightarrow> Inl e
                   | Inr defaults \<Rightarrow>
                       (case build_traits trait_cfgs defaults of
                          Inl e \<Rightarrow> Inl e
                        | Inr ts \<Rightarrow>
                            Inr \<lparr>included_types = inc', excluded_types = exc, traits = ts\<rparr>))))"

text \<open>The loop of \<open>included_type\<close> and of \<open>excluded_type\<close> over a list of patterns.\<close>

fun matches_any :: "string list \<Rightarrow> string \<Rightarrow> bool" where
  "matches_any [] event_type = False"
| "matches_any (t # ts) event_type =
     (if fnmatch event_type t then True else matches_any ts event_type)"

definition included_type :: "event_definition \<Rightarrow> string \<Rightarrow> bool" where
  "included_type d event_type = matches_any (included_types d) event_type"

definition excluded_type :: "event_definition \<Rightarrow> string \<Rightarrow> bool" where
  "excluded_type d event_type = matches_any (excluded_types d) event_type"

definition match_type :: "event_definition \<Rightarrow> string \<Rightarrow> bool" where
  "match_type d event_type =
     (if included_type d event_type \<and> \<not> excluded_type d event_type then True else False)"

definition is_catchall :: "event_definition \<Rightarrow> bool" where
  "is_catchall d =
     (if ''*'' \<in> set (included_types d) \<and> excluded_types d = [] then True else False)"

text \<open>Python's truth value of a document value, as \<open>if when:\<close> tests it.\<close>

fun truthy :: "json \<Rightarrow> bool" where
  "truthy JNull = False"
| "truthy (JBool b) = b"
| "truthy (JInt n) = (n \<noteq> 0)"
| "truthy (JStr s) = (s \<noteq> [])"
| "truthy (JList xs) = (xs \<noteq> [])"
| "truthy (JDict kvs) = (kvs \<noteq> [])"

text \<open>
  \<open>_extract_when\<close>: \<open>body.get('timestamp', body.get('_context_timestamp'))\<close>, parsed
  when it is true, the clock otherwise.
\<close>

definition extract_when :: "('fl, 'tm) runtime \<Rightarrow> (string \<times> json) list \<Rightarrow> error + 'tm" where
  "extract_when rt body =
     (let when =
        (case map_of body ''timestamp'' of
           Some v \<Rightarrow> v
         | None \<Rightarrow> (case map_of body ''_context_timestamp'' of Some v \<Rightarrow> v | None \<Rightarrow> JNull))
      in if truthy when then parse_time rt when else Inr (utcnow rt))"

text \<open>
  The traits of an event: every trait definition is asked in the order of the dictionary,
  the first error raised ends the conversion, and only the traits that are not \<open>None\<close>
  are kept.
\<close>

fun collect_traits ::
  "('fl, 'tm) runtime \<Rightarrow> trait_definition list \<Rightarrow> (string \<times> json) list
     \<Rightarrow> error + ('fl, 'tm) trait list" where
  "collect_traits rt [] notification_body = Inr []"
| "collect_traits rt (td # tds) notification_body =
     (case to_trait rt td notification_body of
        Inl e \<Rightarrow> Inl e
      | Inr r \<Rightarrow>
          (case collect_traits rt tds notification_body of
             Inl e \<Rightarrow> Inl e
           | Inr ts \<Rightarrow> Inr (case r of None \<Rightarrow> ts | Some t \<Rightarrow> t # ts)))"

text \<open>\<open>EventDefinition.to_event\<close>.\<close>

definition definition_to_event ::
  "('fl, 'tm) runtime \<Rightarrow> event_definition \<Rightarrow> (string \<times> json) list
     \<Rightarrow> error + ('fl, 'tm) event" where
  "definition_to_event rt d notification_body =
     (case map_of notification_body ''event_type'' of
        None \<Rightarrow> Inl KeyError
      | Some event_type \<Rightarrow>
          (case extract_when rt notification_body of
             Inl e \<Rightarrow> Inl e
           | Inr when \<Rightarrow>
               (case collect_traits rt (map snd (traits d)) notification_body of
                  Inl e \<Rightarrow> Inl e
                | Inr ts \<Rightarrow>
                    Inr \<lparr>event_name = event_type, generated = when, event_traits = ts\<rparr>)))"

section \<open>The converter\<close>

record notification_events_converter =
  definitions :: "event_definition list"

text \<open>The list comprehension that builds the definitions; the first failure raises.\<close>

fun build_definitions :: "definition_cfg list \<Rightarrow> error + event_definition list" where
  "build_definitions [] = Inr []"
| "build_definitions (event_def # rest) =
     (case EventDefinition_init event_def of
        Inl e \<Rightarrow> Inl e
      | Inr d \<Rightarrow>
          (case build_definitions rest of Inl e \<Rightarrow> Inl e | Inr ds \<Rightarrow> Inr (d # ds)))"

definition catchall_cfg :: definition_cfg where
  "catchall_cfg = \<lparr>cfg_event_type = Some (TypeString ''*''), cfg_traits = Some []\<rparr>"

definition NotificationEventsConverter_init ::
  "definition_cfg list \<Rightarrow> bool \<Rightarrow> error + notification_events_converter" where
  "NotificationEventsConverter_init events_config add_catchall =
     (case build_definitions events_config of
        Inl e \<Rightarrow> Inl e
      | Inr ds \<Rightarrow>
          (if add_catchall \<and> \<not> list_ex is_catchall ds
           then (case EventDefinition_init catchall_cfg of
                   Inl e \<Rightarrow> Inl e
                 | Inr d \<Rightarrow> Inr \<lparr>definitions = ds @ [d]\<rparr>)
           else Inr \<lparr>definitions = ds\<rparr>))"

text \<open>The loop of \<open>to_event\<close> over the definitions, left at the first match.\<close>

fun select_definition :: "event_definition list \<Rightarrow> string \<Rightarrow> event_definition option" where
  "select_definition [] event_type = None"
| "select_definition (d # ds) event_type =
     (if match_type d event_type then Some d else select_definition ds event_type)"

text \<open>
  \<open>NotificationEventsConverter.to_event\<close>. Both keys are read before the loop, so a body
  without one of them is a \<open>KeyError\<close>. The result \<open>Inr None\<close> is the dropped
  notification. The collector hands over \<open>event_type\<close> as a string; for another value
  the glob matcher raises at the first pattern it is asked about, which is the first
  include pattern of the first definition that has one.
\<close>

definition converter_to_event ::
  "('fl, 'tm) runtime \<Rightarrow> notification_events_converter \<Rightarrow> (string \<times> json) list
     \<Rightarrow> error + ('fl, 'tm) event option" where
  "converter_to_event rt c notification_body =
     (case map_of notification_body ''event_type'' of
        None \<Rightarrow> Inl KeyError
      | Some event_type \<Rightarrow>
          (case map_of notification_body ''message_id'' of
             None \<Rightarrow> Inl KeyError
           | Some message_id \<Rightarrow>
               (case event_type of
                  JStr et \<Rightarrow>
                    (case select_definition (definitions c) et of
                       None \<Rightarrow> Inr None
                     | Some edef \<Rightarrow>
                         (case definition_to_event rt edef notification_body of
                            Inl e \<Rightarrow> Inl e
                          | Inr ev \<Rightarrow> Inr (Some ev)))
                | _ \<Rightarrow>
                    (if list_all (\<lambda>d. included_types d = []) (definitions c) then Inr None
                     else Inl TypeError))))"

text \<open>
  A runtime to evaluate the model at concrete inputs. Its points in time are the texts
  themselves: a text parses when it is not empty and made of digits and the separators of
  a timestamp only; its floating-point numbers are integers; its \<open>str\<close> renders a string
  as itself and anything else as a fixed text.
\<close>

definition sample_runtime :: "(int, string) runtime" where
  "sample_runtime =
     \<lparr>py_float = py_int,
      parse_time =
        (\<lambda>v. case v of
               JStr s \<Rightarrow>
                 if s \<noteq> [] \<and> list_all (\<lambda>c. c \<in> set ''0123456789-:. TZ'') s then Inr s
                 else Inl ValueError
             | _ \<Rightarrow> Inl ValueError),
      py_str = (\<lambda>v. case v of JStr s \<Rightarrow> s | _ \<Rightarrow> ''<value>''),
      utcnow = ''2013-08-08 21:06:37''\<rparr>"

section \<open>Properties of the glob matcher and of type matching\<close>

lemma fnmatch_star_all: "fnmatch s ''*''"
  by (induction s) simp_all

lemma fnmatch_empty_pat: "fnmatch a [] \<longleftrightarrow> a = []"
  by (cases a) simp_all

lemma fnmatch_append:
  "fnmatch s (p @ q) \<longleftrightarrow> (\<exists>a b. s = a @ b \<and> fnmatch a p \<and> fnmatch b q)"
proof (induction s p rule: fnmatch.induct)
  case 1
  then show ?case by simp
next
  case (2 c cs)
  then show ?case by (simp add: fnmatch_empty_pat)
next
  case (3 p ps)
  then show ?case by auto
next
  case (4 c cs p ps)
  have split: "\<And>P. (\<exists>a b. c # cs = a @ b \<and> P a b) \<longleftrightarrow>
      (P [] (c # cs) \<or> (\<exists>a' b. cs = a' @ b \<and> P (c # a') b))"
    by (auto simp: Cons_eq_append_conv)
  show ?case
  proof (cases "p = CHR ''*''")
    case True
    with 4 show ?thesis
      by (simp add: split) metis
  next
    case False
    with 4 show ?thesis
      by (auto simp: split)
  qed
qed

lemma fnmatch_question: "fnmatch s ''?'' \<longleftrightarrow> length s = 1"
  by (cases s) (simp_all add: fnmatch_empty_pat)

lemma fnmatch_literal:
  "c \<noteq> CHR ''*'' \<Longrightarrow> c \<noteq> CHR ''?'' \<Longrightarrow> fnmatch s [c] \<longleftrightarrow> s = [c]"
  by (cases s) (auto simp: fnmatch_empty_pat)

lemma matches_any_iff: "matches_any ts s \<longleftrightarrow> (\<exists>t \<in> set ts. fnmatch s t)"
  by (induction ts) simp_all

lemma match_type_iff:
  "match_type d s \<longleftrightarrow>
     (\<exists>t \<in> set (included_types d). fnmatch s t) \<and> \<not> (\<exists>t \<in> set (excluded_types d). fnmatch s t)"
  by (simp add: match_type_def included_type_def excluded_type_def matches_any_iff)

lemma split_types_eq:
  "split_types ts inc exc =
     (inc @ filter (\<lambda>t. \<not> startswith_bang t) ts, exc @ map tl (filter startswith_bang ts))"
  by (induction ts arbitrary: inc exc) simp_all

lemma upper_text: "upper ''text'' = ''TEXT''"
  by (simp add: upper_def upper_char_def)

lemma trait_type_named_text: "trait_type_named ''text'' = Some TEXT_TYPE"
  by (simp add: trait_type_named_def upper_text)

lemma TraitDefinition_init_text:
  "TraitDefinition_init nm \<lparr>cfg_type = Some ''text'', cfg_fields = Some (FieldsString (Some p))\<rparr> =
     Inr \<lparr>name = nm, fields_path = p, trait_type = TEXT_TYPE\<rparr>"
  by (simp add: TraitDefinition_init_def parse_fields_def trait_type_named_text)

lemma default_traits_built: "build_traits DEFAULT_TRAITS [] = Inr default_definitions"
  by (simp add: DEFAULT_TRAITS_def TraitDefinition_init_text default_definitions_def)

lemma EventDefinition_init_eq:
  "EventDefinition_init cfg =
     (case cfg_event_type cfg of
        None \<Rightarrow> Inl EventDefinitionException
      | Some et \<Rightarrow>
          (case cfg_traits cfg of
             None \<Rightarrow> Inl EventDefinitionException
           | Some tcs \<Rightarrow>
               (case build_traits tcs default_definitions of
                  Inl e \<Rightarrow> Inl e
                | Inr ts \<Rightarrow>
                    Inr \<lparr>included_types =
                          (if filter startswith_bang (type_entries et) \<noteq> [] \<and>
                              filter (\<lambda>t. \<not> startswith_bang t) (type_entries et) = []
                           then [''*''] else filter (\<lambda>t. \<not> startswith_bang t) (type_entries et)),
                        excluded_types = map tl (filter startswith_bang (type_entries et)),
                        traits = ts\<rparr>)))"
  by (simp add: EventDefinition_init_def split_types_eq default_traits_built
           split: option.split sum.split)

lemma EventDefinition_init_types:
  assumes "EventDefinition_init cfg = Inr d"
  shows "\<exists>et. cfg_event_type cfg = Some et \<and>
           excluded_types d = map tl (filter startswith_bang (type_entries et)) \<and>
           included_types d =
             (if filter startswith_bang (type_entries et) \<noteq> [] \<and>
                 filter (\<lambda>t. \<not> startswith_bang t) (type_entries et) = []
              then [''*''] else filter (\<lambda>t. \<not> startswith_bang t) (type_entries et))"
proof -
  from assms obtain et where et: "cfg_event_type cfg = Some et"
    by (cases "cfg_event_type cfg") (simp_all add: EventDefinition_init_eq)
  from assms et obtain tcs where tcs: "cfg_traits cfg = Some tcs"
    by (cases "cfg_traits cfg") (simp_all add: EventDefinition_init_eq)
  from assms et tcs obtain ts where ts: "build_traits tcs default_definitions = Inr ts"
    by (cases "build_traits tcs default_definitions") (simp_all add: EventDefinition_init_eq)
  from assms have "d = \<lparr>included_types =
                          (if filter startswith_bang (type_entries et) \<noteq> [] \<and>
                              filter (\<lambda>t. \<not> startswith_bang t) (type_entries et) = []
                           then [''*''] else filter (\<lambda>t. \<not> startswith_bang t) (type_entries et)),
                        excluded_types = map tl (filter startswith_bang (type_entries et)),
                        traits = ts\<rparr>"
    by (simp add: EventDefinition_init_eq et tcs ts)
  then show ?thesis using et by simp
qed

text \<open>
  Claim C3. For every matcher and every candidate event type, \<open>match_type\<close> holds
  exactly when the candidate matches at least one include pattern and no exclude pattern.
  Each pattern is matched as a shell glob: \<open>*\<close> matches every string (any run of
  characters), \<open>?\<close> exactly the strings of one character, any other character itself,
  and a pattern made of two parts matches the strings that split into a match of each
  part. So \<open>compute.instance.*\<close> matches \<open>compute.instance.create.start\<close> but not
  \<open>image.upload\<close>, and \<open>*.start\<close> matches \<open>compute.instance.create.start\<close>.
\<close>

theorem match_type_glob:
  "(match_type d candidate \<longleftrightarrow>
      (\<exists>t \<in> set (included_types d). fnmatch candidate t) \<and>
      \<not> (\<exists>t \<in> set (excluded_types d). fnmatch candidate t)) \<and>
   fnmatch s ''*'' \<and>
   (fnmatch s ''?'' \<longleftrightarrow> length s = 1) \<and>
   (c \<noteq> CHR ''*'' \<and> c \<noteq> CHR ''?'' \<longrightarrow> (fnmatch s [c] \<longleftrightarrow> s = [c])) \<and>
   (fnmatch s (p @ q) \<longleftrightarrow> (\<exists>a b. s = a @ b \<and> fnmatch a p \<and> fnmatch b q)) \<and>
   fnmatch ''compute.instance.create.start'' ''compute.instance.*'' \<and>
   \<not> fnmatch ''image.upload'' ''compute.instance.*'' \<and>
   fnmatch ''compute.instance.create.start'' ''*.start''"
proof -
  have sel: "match_type d candidate \<longleftrightarrow>
      (\<exists>t \<in> set (included_types d). fnmatch candidate t) \<and>
      \<not> (\<exists>t \<in> set (excluded_types d). fnmatch candidate t)"
    by (rule match_type_iff)
  have star: "fnmatch s ''*''" by (rule fnmatch_star_all)
  have quest: "fnmatch s ''?'' \<longleftrightarrow> length s = 1" by (rule fnmatch_question)
  have lit: "c \<noteq> CHR ''*'' \<and> c \<noteq> CHR ''?'' \<longrightarrow> (fnmatch s [c] \<longleftrightarrow> s = [c])"
    by (simp add: fnmatch_literal)
  have app: "fnmatch s (p @ q) \<longleftrightarrow> (\<exists>a b. s = a @ b \<and> fnmatch a p \<and> fnmatch b q)"
    by (rule fnmatch_append)
  have ex1: "fnmatch ''compute.instance.create.start'' ''compute.instance.*''" by simp
  have ex2: "\<not> fnmatch ''image.upload'' ''compute.instance.*''" by simp
  have ex3: "fnmatch ''compute.instance.create.start'' ''*.start''" by simp
  show ?thesis
    using sel star quest lit app ex1 ex2 ex3 by (intro conjI)
qed

theorem match_type_glob_witness:
  "match_type \<lparr>included_types = [''*.start'', ''*.end''], excluded_types = [''scheduler.*''], traits = []\<rparr>
     ''compute.instance.create.start'' \<and>
   \<not> match_type \<lparr>included_types = [''*.start'', ''*.end''], excluded_types = [''scheduler.*''], traits = []\<rparr>
     ''scheduler.run_instance.start'' \<and>
   \<not> match_type \<lparr>included_types = [''*.start'', ''*.end''], excluded_types = [''scheduler.*''], traits = []\<rparr>
     ''compute.instance.exists'' \<and>
   CHR ''.'' \<noteq> CHR ''*'' \<and> CHR ''.'' \<noteq> CHR ''?'' \<and> fnmatch ''.'' ''.'' \<and> \<not> fnmatch ''x'' ''.''"
proof -
  let ?d = "\<lparr>included_types = [''*.start'', ''*.end''], excluded_types = [''scheduler.*''], traits = []\<rparr>"
  have a: "match_type ?d ''compute.instance.create.start''"
    using match_type_glob [THEN conjunct1, of ?d "''compute.instance.create.start''"] by simp
  have b: "\<not> match_type ?d ''scheduler.run_instance.start''"
    using match_type_glob [THEN conjunct1, of ?d "''scheduler.run_instance.start''"] by simp
  have c: "\<not> match_type ?d ''compute.instance.exists''"
    using match_type_glob [THEN conjunct1, of ?d "''compute.instance.exists''"] by simp
  have l: "CHR ''.'' \<noteq> CHR ''*'' \<and> CHR ''.'' \<noteq> CHR ''?''" by simp
  have m: "fnmatch ''.'' ''.''" "\<not> fnmatch ''x'' ''.''"
    using match_type_glob [THEN conjunct2, THEN conjunct2, THEN conjunct2, THEN conjunct1,
        of "CHR ''.''"] l
    by simp_all
  from a b c l m show ?thesis by simp
qed

text \<open>
  Claim C4. A matcher built from an \<open>event_type\<close> specification that has at least one
  entry and only entries starting with \<open>!\<close> gets the implicit include pattern \<open>*\<close>,
  its exclude patterns are the entries without their \<open>!\<close>, and it accepts exactly the
  candidates that match none of the exclude patterns.
\<close>

theorem exclusion_only_matcher:
  assumes "EventDefinition_init cfg = Inr d"
      and "cfg_event_type cfg = Some et"
      and "type_entries et \<noteq> []"
      and "\<forall>t \<in> set (type_entries et). startswith_bang t"
  shows "included_types d = [''*''] \<and> excluded_types d = map tl (type_entries et) \<and>
         (match_type d candidate \<longleftrightarrow> (\<forall>t \<in> set (type_entries et). \<not> fnmatch candidate (tl t)))"
proof -
  from assms(4) have all: "filter startswith_bang (type_entries et) = type_entries et"
    and none: "filter (\<lambda>t. \<not> startswith_bang t) (type_entries et) = []"
    by (simp_all add: filter_empty_conv)
  from EventDefinition_init_types [OF assms(1)] assms(2,3) all none
  have inc: "included_types d = [''*'']" and exc: "excluded_types d = map tl (type_entries et)"
    by auto
  show ?thesis
    by (simp add: inc exc match_type_iff fnmatch_star_all)
qed

theorem exclusion_only_matcher_witness:
  "(case EventDefinition_init
           \<lparr>cfg_event_type = Some (TypeList [''!image.*'', ''!scheduler.*'']), cfg_traits = Some []\<rparr> of
      Inl e \<Rightarrow> False
    | Inr d \<Rightarrow>
        included_types d = [''*''] \<and> excluded_types d = [''image.*'', ''scheduler.*''] \<and>
        match_type d ''compute.instance.exists'' \<and> \<not> match_type d ''image.upload'' \<and>
        \<not> match_type d ''scheduler.run_instance.start'')"
proof -
  let ?cfg = "\<lparr>cfg_event_type = Some (TypeList [''!image.*'', ''!scheduler.*'']), cfg_traits = Some []\<rparr>"
  have "\<exists>d. EventDefinition_init ?cfg = Inr d"
    by (simp add: EventDefinition_init_eq)
  then obtain d where d: "EventDefinition_init ?cfg = Inr d" ..
  have et: "cfg_event_type ?cfg = Some (TypeList [''!image.*'', ''!scheduler.*''])" by simp
  have ne: "type_entries (TypeList [''!image.*'', ''!scheduler.*'']) \<noteq> []"
    by (simp add: type_entries_def)
  have bang: "\<forall>t \<in> set (type_entries (TypeList [''!image.*'', ''!scheduler.*''])). startswith_bang t"
    by (simp add: type_entries_def startswith_bang_def)
  have a: "included_types d = [''*''] \<and> excluded_types d = [''image.*'', ''scheduler.*'']"
    using exclusion_only_matcher [OF d et ne bang] by (simp add: type_entries_def)
  have b: "match_type d ''compute.instance.exists''"
    using exclusion_only_matcher [OF d et ne bang, of "''compute.instance.exists''"]
    by (simp add: type_entries_def)
  have c: "\<not> match_type d ''image.upload''"
    using exclusion_only_matcher [OF d et ne bang, of "''image.upload''"]
    by (simp add: type_entries_def)
  have e: "\<not> match_type d ''scheduler.run_instance.start''"
    using exclusion_only_matcher [OF d et ne bang, of "''scheduler.run_instance.start''"]
    by (simp add: type_entries_def)
  from a b c e show ?thesis unfolding d by simp
qed

section \<open>Rule selection by the converter\<close>

lemma select_definition_None:
  "select_definition ds et = None \<longleftrightarrow> (\<forall>d \<in> set ds. \<not> match_type d et)"
  by (induction ds) simp_all

lemma select_definition_first:
  "(\<forall>d' \<in> set pre. \<not> match_type d' et) \<Longrightarrow> match_type d et \<Longrightarrow>
   select_definition (pre @ d # post) et = Some d"
  by (induction pre) simp_all

lemma converter_to_event_string:
  assumes "map_of body ''event_type'' = Some (JStr et)" and "map_of body ''message_id'' = Some mid"
  shows "converter_to_event rt c body =
           (case select_definition (definitions c) et of
              None \<Rightarrow> Inr None
            | Some d \<Rightarrow> map_sum id Some (definition_to_event rt d body))"
  using assms
  by (simp add: converter_to_event_def split: option.split sum.split)

text \<open>
  Claim C1. For every rule table and every notification that carries a string
  \<open>event_type\<close> and a \<open>message_id\<close>, the converter selects no rule or one rule: when
  no rule matches the event type the result is the dropped notification; when some rule
  matches, the table splits into the rules before the first match, none of which matches,
  the first matching rule, and the rest; and for every such split the result is that of
  the first matching rule's \<open>to_event\<close>, whatever the rules after it are.
\<close>

theorem converter_first_match:
  assumes "map_of body ''event_type'' = Some (JStr et)"
      and "map_of body ''message_id'' = Some mid"
  shows "((\<forall>d \<in> set (definitions c). \<not> match_type d et) \<longrightarrow>
            converter_to_event rt c body = Inr None) \<and>
         ((\<exists>d \<in> set (definitions c). match_type d et) \<longrightarrow>
            (\<exists>pre d post. definitions c = pre @ d # post \<and>
               (\<forall>d' \<in> set pre. \<not> match_type d' et) \<and> match_type d et)) \<and>
         (\<forall>pre d post.
            definitions c = pre @ d # post \<and> (\<forall>d' \<in> set pre. \<not> match_type d' et) \<and>
            match_type d et \<longrightarrow>
            converter_to_event rt c body = map_sum id Some (definition_to_event rt d body))"
proof (intro conjI allI impI)
  assume "\<forall>d \<in> set (definitions c). \<not> match_type d et"
  then have "select_definition (definitions c) et = None"
    by (simp add: select_definition_None)
  then show "converter_to_event rt c body = Inr None"
    by (simp add: converter_to_event_string [OF assms])
next
  assume "\<exists>d \<in> set (definitions c). match_type d et"
  then obtain ys x zs where "definitions c = ys @ x # zs" "match_type x et"
    "\<forall>y \<in> set ys. \<not> match_type y et"
    by (rule split_list_first_propE)
  then show "\<exists>pre d post. definitions c = pre @ d # post \<and>
               (\<forall>d' \<in> set pre. \<not> match_type d' et) \<and> match_type d et"
    by (intro exI [of _ ys] exI [of _ x] exI [of _ zs]) simp
next
  fix pre d post
  assume "definitions c = pre @ d # post \<and> (\<forall>d' \<in> set pre. \<not> match_type d' et) \<and>
            match_type d et"
  then have "select_definition (definitions c) et = Some d"
    by (simp add: select_definition_first)
  then show "converter_to_event rt c body = map_sum id Some (definition_to_event rt d body)"
    by (simp add: converter_to_event_string [OF assms])
qed


theorem converter_first_match_witness:
  "converter_to_event sample_runtime
     \<lparr>definitions =
        [\<lparr>included_types = [''compute.*''], excluded_types = [], traits = []\<rparr>,
         \<lparr>included_types = [''compute.instance.create.start''], excluded_types = [],
          traits = [(''host'', \<lparr>name = ''host'', fields_path = Child (Fields ''payload'') (Fields ''host''),
                               trait_type = TEXT_TYPE\<rparr>)]\<rparr>]\<rparr>
     [(''event_type'', JStr ''compute.instance.create.start''), (''message_id'', JStr ''uuid-1''),
      (''payload'', JDict [(''host'', JStr ''h1'')])]
   = Inr (Some \<lparr>event_name = JStr ''compute.instance.create.start'',
                 generated = ''2013-08-08 21:06:37'', event_traits = []\<rparr>) \<and>
   match_type \<lparr>included_types = [''compute.instance.create.start''], excluded_types = [],
          traits = [(''host'', \<lparr>name = ''host'', fields_path = Child (Fields ''payload'') (Fields ''host''),
                               trait_type = TEXT_TYPE\<rparr>)]\<rparr> ''compute.instance.create.start'' \<and>
   definition_to_event sample_runtime
     \<lparr>included_types = [''compute.instance.create.start''], excluded_types = [],
          traits = [(''host'', \<lparr>name = ''host'', fields_path = Child (Fields ''payload'') (Fields ''host''),
                               trait_type = TEXT_TYPE\<rparr>)]\<rparr>
     [(''event_type'', JStr ''compute.instance.create.start''), (''message_id'', JStr ''uuid-1''),
      (''payload'', JDict [(''host'', JStr ''h1'')])]
   = Inr \<lparr>event_name = JStr ''compute.instance.create.start'',
           generated = ''2013-08-08 21:06:37'',
           event_traits = [\<lparr>trait_name = ''host'', dtype = TEXT_TYPE, trait_value = TextValue ''h1''\<rparr>]\<rparr>"
proof -
  let ?d1 = "\<lparr>included_types = [''compute.*''], excluded_types = [], traits = []\<rparr>"
  let ?d2 = "\<lparr>included_types = [''compute.instance.create.start''], excluded_types = [],
          traits = [(''host'', \<lparr>name = ''host'', fields_path = Child (Fields ''payload'') (Fields ''host''),
                               trait_type = TEXT_TYPE\<rparr>)]\<rparr>"
  let ?body = "[(''event_type'', JStr ''compute.instance.create.start''), (''message_id'', JStr ''uuid-1''),
      (''payload'', JDict [(''host'', JStr ''h1'')])]"
  have e: "map_of ?body ''event_type'' = Some (JStr ''compute.instance.create.start'')" by simp
  have m: "map_of ?body ''message_id'' = Some (JStr ''uuid-1'')" by simp
  have m1: "match_type ?d1 ''compute.instance.create.start''"
    by (simp add: match_type_def included_type_def excluded_type_def)
  have m2: "match_type ?d2 ''compute.instance.create.start''"
    by (simp add: match_type_def included_type_def excluded_type_def)
  have sel: "definitions \<lparr>definitions = [?d1, ?d2]\<rparr> = [] @ ?d1 # [?d2] \<and>
      (\<forall>d' \<in> set []. \<not> match_type d' ''compute.instance.create.start'') \<and>
      match_type ?d1 ''compute.instance.create.start''"
    using m1 by simp
  have ev1: "definition_to_event sample_runtime ?d1 ?body =
      Inr \<lparr>event_name = JStr ''compute.instance.create.start'',
           generated = ''2013-08-08 21:06:37'', event_traits = []\<rparr>"
    by (simp add: definition_to_event_def extract_when_def sample_runtime_def)
  have ev2: "definition_to_event sample_runtime ?d2 ?body =
      Inr \<lparr>event_name = JStr ''compute.instance.create.start'',
           generated = ''2013-08-08 21:06:37'',
           event_traits = [\<lparr>trait_name = ''host'', dtype = TEXT_TYPE, trait_value = TextValue ''h1''\<rparr>]\<rparr>"
    by (simp add: definition_to_event_def extract_when_def to_trait_def sample_runtime_def)
  have "converter_to_event sample_runtime \<lparr>definitions = [?d1, ?d2]\<rparr> ?body =
      map_sum id Some (definition_to_event sample_runtime ?d1 ?body)"
    using converter_first_match [OF e m, of "\<lparr>definitions = [?d1, ?d2]\<rparr>" sample_runtime,
        THEN conjunct2, THEN conjunct2, rule_format, OF sel] .
  then show ?thesis using ev1 ev2 m2 by simp
qed

section \<open>Catch-all definitions and dropped notifications\<close>

lemma is_catchall_matches: "is_catchall d \<Longrightarrow> match_type d et"
  by (simp add: is_catchall_def match_type_iff split: if_splits)
     (use fnmatch_star_all in auto)

lemma catchall_cfg_built:
  "EventDefinition_init catchall_cfg =
     Inr \<lparr>included_types = [''*''], excluded_types = [], traits = default_definitions\<rparr>"
  by (simp add: EventDefinition_init_eq catchall_cfg_def type_entries_def startswith_bang_def)

lemma init_empty_True:
  "NotificationEventsConverter_init [] True =
     Inr \<lparr>definitions = [\<lparr>included_types = [''*''], excluded_types = [], traits = default_definitions\<rparr>]\<rparr>"
  by (simp add: NotificationEventsConverter_init_def catchall_cfg_built)

lemma init_empty_False: "NotificationEventsConverter_init [] False = Inr \<lparr>definitions = []\<rparr>"
  by (simp add: NotificationEventsConverter_init_def)

lemma init_True_has_catchall:
  assumes "NotificationEventsConverter_init cfgs True = Inr c"
  shows "\<exists>d \<in> set (definitions c). is_catchall d"
proof (cases "build_definitions cfgs")
  case (Inl e)
  with assms show ?thesis by (simp add: NotificationEventsConverter_init_def)
next
  case (Inr ds)
  show ?thesis
  proof (cases "list_ex is_catchall ds")
    case True
    with assms Inr have "definitions c = ds"
      by (auto simp: NotificationEventsConverter_init_def)
    with True show ?thesis by (simp add: list_ex_iff)
  next
    case False
    with assms Inr have "definitions c =
        ds @ [\<lparr>included_types = [''*''], excluded_types = [], traits = default_definitions\<rparr>]"
      by (auto simp: NotificationEventsConverter_init_def catchall_cfg_built)
    then show ?thesis by (simp add: is_catchall_def)
  qed
qed

lemma converter_None_iff:
  assumes "map_of body ''event_type'' = Some (JStr et)" and "map_of body ''message_id'' = Some mid"
  shows "converter_to_event rt c body = Inr None \<longleftrightarrow> (\<forall>d \<in> set (definitions c). \<not> match_type d et)"
proof (cases "select_definition (definitions c) et")
  case None
  then show ?thesis
    using select_definition_None [of "definitions c" et]
    by (simp add: converter_to_event_string [OF assms])
next
  case (Some d)
  then have "converter_to_event rt c body \<noteq> Inr None"
    by (cases "definition_to_event rt d body") (simp_all add: converter_to_event_string [OF assms])
  then show ?thesis
    using Some select_definition_None [of "definitions c" et] by simp
qed

text \<open>
  Claim C7. For a notification that carries a string \<open>event_type\<close> and a
  \<open>message_id\<close>, the converter returns the dropped notification exactly when no
  definition's matcher accepts the event type. For a converter built by
  \<open>NotificationEventsConverter_init\<close> that can only happen when no catch-all was
  requested (dropping is allowed). Built from the empty configuration with dropping
  allowed, the converter has no definition and drops every such notification; built with
  dropping disallowed, from any configuration, it never drops one.
\<close>

theorem converter_drops_only_without_catchall:
  assumes "map_of body ''event_type'' = Some (JStr et)"
      and "map_of body ''message_id'' = Some mid"
  shows "(converter_to_event rt c body = Inr None \<longleftrightarrow>
            (\<forall>d \<in> set (definitions c). \<not> match_type d et)) \<and>
         (NotificationEventsConverter_init cfgs add_catchall = Inr c' \<and>
            converter_to_event rt c' body = Inr None \<longrightarrow> \<not> add_catchall) \<and>
         NotificationEventsConverter_init [] False = Inr \<lparr>definitions = []\<rparr> \<and>
         converter_to_event rt \<lparr>definitions = []\<rparr> body = Inr None \<and>
         (NotificationEventsConverter_init cfgs True = Inr c' \<longrightarrow>
            converter_to_event rt c' body \<noteq> Inr None)"
proof -
  have never: "converter_to_event rt k body \<noteq> Inr None"
    if "NotificationEventsConverter_init cfgs True = Inr k" for k
  proof -
    from init_True_has_catchall [OF that] obtain d
      where "d \<in> set (definitions k)" "is_catchall d" by (rule bexE)
    then have "\<exists>d \<in> set (definitions k). match_type d et"
      using is_catchall_matches [of d et] by (intro bexI [of _ d])
    then show ?thesis by (simp add: converter_None_iff [OF assms])
  qed
  have a: "converter_to_event rt c body = Inr None \<longleftrightarrow>
            (\<forall>d \<in> set (definitions c). \<not> match_type d et)"
    by (rule converter_None_iff [OF assms])
  have b: "NotificationEventsConverter_init cfgs add_catchall = Inr c' \<and>
            converter_to_event rt c' body = Inr None \<longrightarrow> \<not> add_catchall"
    using never [of c'] by (cases add_catchall) simp_all
  have e: "converter_to_event rt \<lparr>definitions = []\<rparr> body = Inr None"
    by (simp add: converter_None_iff [OF assms])
  have f: "NotificationEventsConverter_init cfgs True = Inr c' \<longrightarrow>
            converter_to_event rt c' body \<noteq> Inr None"
    using never [of c'] by simp
  from a b init_empty_False e f show ?thesis by (intro conjI)
qed


theorem converter_drops_only_without_catchall_witness:
  "NotificationEventsConverter_init [] False = Inr \<lparr>definitions = []\<rparr> \<and>
   converter_to_event sample_runtime \<lparr>definitions = []\<rparr>
     [(''event_type'', JStr ''bogus.notification.from.mars''), (''message_id'', JStr ''uuid-2'')] = Inr None \<and>
   NotificationEventsConverter_init [] True =
     Inr \<lparr>definitions = [\<lparr>included_types = [''*''], excluded_types = [], traits = default_definitions\<rparr>]\<rparr> \<and>
   converter_to_event sample_runtime
     \<lparr>definitions = [\<lparr>included_types = [''*''], excluded_types = [], traits = default_definitions\<rparr>]\<rparr>
     [(''event_type'', JStr ''bogus.notification.from.mars''), (''message_id'', JStr ''uuid-2'')] \<noteq> Inr None"
proof -
  let ?body = "[(''event_type'', JStr ''bogus.notification.from.mars''), (''message_id'', JStr ''uuid-2'')]"
  let ?c = "\<lparr>definitions = [\<lparr>included_types = [''*''], excluded_types = [], traits = default_definitions\<rparr>]\<rparr>"
  have e: "map_of ?body ''event_type'' = Some (JStr ''bogus.notification.from.mars'')" by simp
  have m: "map_of ?body ''message_id'' = Some (JStr ''uuid-2'')" by simp
  note th = converter_drops_only_without_catchall [OF e m, of sample_runtime "\<lparr>definitions = []\<rparr>" "[]" True ?c]
  have a: "NotificationEventsConverter_init [] False = Inr \<lparr>definitions = []\<rparr>"
    by (rule th [THEN conjunct2, THEN conjunct2, THEN conjunct1])
  have b: "converter_to_event sample_runtime \<lparr>definitions = []\<rparr> ?body = Inr None"
    by (rule th [THEN conjunct2, THEN conjunct2, THEN conjunct2, THEN conjunct1])
  have c: "NotificationEventsConverter_init [] True = Inr ?c \<longrightarrow>
              converter_to_event sample_runtime ?c ?body \<noteq> Inr None"
    by (rule th [THEN conjunct2, THEN conjunct2, THEN conjunct2, THEN conjunct2])
  from c have d: "converter_to_event sample_runtime ?c ?body \<noteq> Inr None"
    by (simp add: init_empty_True)
  from a b d init_empty_True show ?thesis by (intro conjI)
qed

section \<open>Catch-all status\<close>

text \<open>
  Claim C2, as stated, fails: the matcher built from the specification \<open>['*', 'foo']\<close>
  is a catch-all although its include patterns are not exactly \<open>*\<close>.
\<close>

theorem is_catchall_extra_inclusion_counterexample:
  "EventDefinition_init \<lparr>cfg_event_type = Some (TypeList [''*'', ''foo'']), cfg_traits = Some []\<rparr> =
     Inr \<lparr>included_types = [''*'', ''foo''], excluded_types = [], traits = default_definitions\<rparr> \<and>
   is_catchall \<lparr>included_types = [''*'', ''foo''], excluded_types = [], traits = default_definitions\<rparr> \<and>
   set (included_types \<lparr>included_types = [''*'', ''foo''], excluded_types = [], traits = default_definitions\<rparr>)
     \<noteq> {''*''}"
  by (simp add: EventDefinition_init_eq type_entries_def startswith_bang_def is_catchall_def)

text \<open>
  Claim C2, amended. \<open>is_catchall\<close> holds if and only if \<open>*\<close> is one of the include
  patterns, whatever other include patterns stand beside it, and there is no exclude
  pattern. In particular it holds when the include patterns are exactly \<open>*\<close> and there
  is no exclude pattern. For a matcher built from an \<open>event_type\<close> specification this
  means: \<open>*\<close> is one of the entries and no entry starts with \<open>!\<close>.
\<close>

theorem is_catchall_iff:
  "(is_catchall d \<longleftrightarrow> ''*'' \<in> set (included_types d) \<and> set (excluded_types d) = {}) \<and>
   (set (included_types d) = {''*''} \<and> set (excluded_types d) = {} \<longrightarrow> is_catchall d) \<and>
   (EventDefinition_init cfg = Inr d' \<and> cfg_event_type cfg = Some et \<longrightarrow>
      (is_catchall d' \<longleftrightarrow>
         ''*'' \<in> set (type_entries et) \<and> (\<forall>t \<in> set (type_entries et). \<not> startswith_bang t)))"
proof -
  have a: "is_catchall d \<longleftrightarrow> ''*'' \<in> set (included_types d) \<and> set (excluded_types d) = {}"
    by (simp add: is_catchall_def)
  have b: "set (included_types d) = {''*''} \<and> set (excluded_types d) = {} \<longrightarrow> is_catchall d"
    by (simp add: is_catchall_def)
  have c: "is_catchall d' \<longleftrightarrow>
         ''*'' \<in> set (type_entries et) \<and> (\<forall>t \<in> set (type_entries et). \<not> startswith_bang t)"
    if init: "EventDefinition_init cfg = Inr d'" and et: "cfg_event_type cfg = Some et"
  proof -
    from EventDefinition_init_types [OF init] et
    have exc: "excluded_types d' = map tl (filter startswith_bang (type_entries et))"
      and inc: "included_types d' =
             (if filter startswith_bang (type_entries et) \<noteq> [] \<and>
                 filter (\<lambda>t. \<not> startswith_bang t) (type_entries et) = []
              then [''*''] else filter (\<lambda>t. \<not> startswith_bang t) (type_entries et))"
      by simp_all
    have star: "\<not> startswith_bang ''*''" by (simp add: startswith_bang_def)
    show ?thesis
    proof (cases "filter startswith_bang (type_entries et) = []")
      case True
      then have none: "\<forall>t \<in> set (type_entries et). \<not> startswith_bang t"
        by (simp add: filter_empty_conv)
      then have "filter (\<lambda>t. \<not> startswith_bang t) (type_entries et) = type_entries et"
        by simp
      with True none show ?thesis
        by (simp add: is_catchall_def exc inc)
    next
      case False
      then have "\<not> (\<forall>t \<in> set (type_entries et). \<not> startswith_bang t)"
        by (simp add: filter_empty_conv)
      with False show ?thesis
        by (simp add: is_catchall_def exc)
    qed
  qed
  from a b c show ?thesis by (intro conjI impI) simp_all
qed

theorem is_catchall_iff_witness:
  "is_catchall \<lparr>included_types = [''*'', ''foo''], excluded_types = [], traits = default_definitions\<rparr> \<and>
   is_catchall \<lparr>included_types = [''*''], excluded_types = [], traits = default_definitions\<rparr> \<and>
   \<not> is_catchall \<lparr>included_types = [''*''], excluded_types = [''foo''], traits = default_definitions\<rparr> \<and>
   EventDefinition_init \<lparr>cfg_event_type = Some (TypeList [''*'', ''!foo'']), cfg_traits = Some []\<rparr> =
     Inr \<lparr>included_types = [''*''], excluded_types = [''foo''], traits = default_definitions\<rparr>"
proof -
  let ?cfg = "\<lparr>cfg_event_type = Some (TypeList [''*'', ''!foo'']), cfg_traits = Some []\<rparr>"
  let ?d = "\<lparr>included_types = [''*''], excluded_types = [''foo''], traits = default_definitions\<rparr>"
  have i: "EventDefinition_init ?cfg = Inr ?d"
    by (simp add: EventDefinition_init_eq type_entries_def startswith_bang_def)
  have a: "is_catchall \<lparr>included_types = [''*'', ''foo''], excluded_types = [], traits = default_definitions\<rparr>"
    using is_catchall_iff [THEN conjunct1,
        of "\<lparr>included_types = [''*'', ''foo''], excluded_types = [], traits = default_definitions\<rparr>"]
    by simp
  have b: "is_catchall \<lparr>included_types = [''*''], excluded_types = [], traits = default_definitions\<rparr>"
    using is_catchall_iff [THEN conjunct2, THEN conjunct1,
        of "\<lparr>included_types = [''*''], excluded_types = [], traits = default_definitions\<rparr>"]
    by simp
  have c: "\<not> is_catchall ?d"
    using is_catchall_iff [THEN conjunct2, THEN conjunct2, of ?cfg ?d "TypeList [''*'', ''!foo'']"] i
    by (simp add: type_entries_def startswith_bang_def)
  from a b c i show ?thesis by (intro conjI)
qed

section \<open>The converter built from the empty configuration\<close>

lemma to_trait_text:
  "trait_type td = TEXT_TYPE \<Longrightarrow> \<exists>r. to_trait rt td body = Inr r"
  by (simp add: to_trait_def split: list.split)

lemma collect_traits_text:
  "\<forall>td \<in> set tds. trait_type td = TEXT_TYPE \<Longrightarrow>
   \<exists>ts. collect_traits rt tds body = Inr ts \<and> length ts \<le> length tds"
proof (induction tds)
  case Nil
  then show ?case by simp
next
  case (Cons td tds)
  then obtain ts where ts: "collect_traits rt tds body = Inr ts" "length ts \<le> length tds"
    by auto
  from Cons.prems obtain r where r: "to_trait rt td body = Inr r"
    using to_trait_text [of td rt body] by auto
  from ts(2) show ?case
    by (cases r) (simp_all add: ts(1) r)
qed

lemma default_definitions_text:
  "\<forall>td \<in> set (map snd default_definitions). trait_type td = TEXT_TYPE"
  by (simp add: default_definitions_def)

lemma default_definitions_names:
  "map fst default_definitions = [''message_id'', ''service'', ''request_id'', ''tenant_id'']"
  by (simp add: default_definitions_def)

lemma star_definition_matches:
  "match_type \<lparr>included_types = [''*''], excluded_types = [], traits = ts\<rparr> et"
  by (rule is_catchall_matches) (simp add: is_catchall_def)

lemma catchall_to_event:
  assumes "map_of body ''event_type'' = Some etv"
  shows "definition_to_event rt \<lparr>included_types = inc, excluded_types = exc, traits = default_definitions\<rparr> body =
           (case extract_when rt body of
              Inl e \<Rightarrow> Inl e
            | Inr w \<Rightarrow>
                Inr \<lparr>event_name = etv, generated = w,
                     event_traits = projr (collect_traits rt (map snd default_definitions) body)\<rparr>)"
proof -
  from collect_traits_text [OF default_definitions_text, of rt body]
  obtain ts where "collect_traits rt (map snd default_definitions) body = Inr ts" by auto
  then show ?thesis
    using assms by (simp add: definition_to_event_def split: sum.split)
qed

lemma default_traits_at_most_4:
  "length (projr (collect_traits rt (map snd default_definitions) body)) \<le> 4"
proof -
  from collect_traits_text [OF default_definitions_text, of rt body]
  obtain ts where "collect_traits rt (map snd default_definitions) body = Inr ts"
    "length ts \<le> length (map snd default_definitions)" by auto
  then show ?thesis by (simp add: default_definitions_def)
qed

text \<open>
  Claim C6, as stated, fails: a notification that carries \<open>event_type\<close> and
  \<open>message_id\<close> and a \<open>timestamp\<close> that does not parse is not converted to an event;
  the error of the timestamp parser is raised by \<open>_extract_when\<close>.
\<close>

theorem empty_config_bad_timestamp_counterexample:
  "NotificationEventsConverter_init [] True =
     Inr \<lparr>definitions = [\<lparr>included_types = [''*''], excluded_types = [], traits = default_definitions\<rparr>]\<rparr> \<and>
   converter_to_event sample_runtime
     \<lparr>definitions = [\<lparr>included_types = [''*''], excluded_types = [], traits = default_definitions\<rparr>]\<rparr>
     [(''event_type'', JStr ''compute.instance.exists''), (''message_id'', JStr ''uuid-3''),
      (''timestamp'', JStr ''yesterday'')] = Inl ValueError"
proof -
  let ?body = "[(''event_type'', JStr ''compute.instance.exists''), (''message_id'', JStr ''uuid-3''),
      (''timestamp'', JStr ''yesterday'')]"
  have e: "map_of ?body ''event_type'' = Some (JStr ''compute.instance.exists'')" by simp
  have m: "map_of ?body ''message_id'' = Some (JStr ''uuid-3'')" by simp
  have w: "extract_when sample_runtime ?body = Inl ValueError"
    by (simp add: extract_when_def sample_runtime_def)
  have s: "match_type \<lparr>included_types = [''*''], excluded_types = [], traits = default_definitions\<rparr>
      ''compute.instance.exists''"
    by (rule star_definition_matches)
  show ?thesis
    by (simp add: init_empty_True converter_to_event_string [OF e m] s catchall_to_event [OF e] w)
qed

text \<open>
  Claim C6, amended. Built from the empty configuration with dropping disallowed, the
  converter holds exactly one definition, the synthesized catch-all, whose traits are the
  four default trait definitions \<open>message_id\<close>, \<open>service\<close>, \<open>request_id\<close> and
  \<open>tenant_id\<close>. Every notification that carries a string \<open>event_type\<close> and a
  \<open>message_id\<close> and whose generation time can be extracted (no timestamp, an empty one
  or one that parses) converts to an event with that generation time and at most 4
  traits; when the extraction of the generation time raises, that error is the result; in
  no case is the notification dropped.
\<close>

theorem empty_config_catchall:
  assumes "map_of body ''event_type'' = Some (JStr et)"
      and "map_of body ''message_id'' = Some mid"
  shows "NotificationEventsConverter_init [] True =
           Inr \<lparr>definitions = [\<lparr>included_types = [''*''], excluded_types = [], traits = default_definitions\<rparr>]\<rparr> \<and>
         is_catchall \<lparr>included_types = [''*''], excluded_types = [], traits = default_definitions\<rparr> \<and>
         build_traits DEFAULT_TRAITS [] = Inr default_definitions \<and>
         map fst default_definitions = [''message_id'', ''service'', ''request_id'', ''tenant_id''] \<and>
         (\<forall>w. extract_when rt body = Inr w \<longrightarrow>
            (\<exists>ev. converter_to_event rt
                    \<lparr>definitions = [\<lparr>included_types = [''*''], excluded_types = [], traits = default_definitions\<rparr>]\<rparr>
                    body = Inr (Some ev) \<and>
                  event_name ev = JStr et \<and> generated ev = w \<and> length (event_traits ev) \<le> 4)) \<and>
         (\<forall>e. extract_when rt body = Inl e \<longrightarrow>
            converter_to_event rt
              \<lparr>definitions = [\<lparr>included_types = [''*''], excluded_types = [], traits = default_definitions\<rparr>]\<rparr>
              body = Inl e) \<and>
         converter_to_event rt
           \<lparr>definitions = [\<lparr>included_types = [''*''], excluded_types = [], traits = default_definitions\<rparr>]\<rparr>
           body \<noteq> Inr None"
proof -
  let ?d = "\<lparr>included_types = [''*''], excluded_types = [], traits = default_definitions\<rparr>"
  have cat: "is_catchall ?d" by (simp add: is_catchall_def)
  have conv: "converter_to_event rt \<lparr>definitions = [?d]\<rparr> body =
      map_sum id Some (definition_to_event rt ?d body)"
    using star_definition_matches [of default_definitions et]
    by (simp add: converter_to_event_string [OF assms])
  have ok: "\<exists>ev. converter_to_event rt \<lparr>definitions = [?d]\<rparr> body = Inr (Some ev) \<and>
                  event_name ev = JStr et \<and> generated ev = w \<and> length (event_traits ev) \<le> 4"
    if "extract_when rt body = Inr w" for w
    using that default_traits_at_most_4 [of rt body]
    by (simp add: conv catchall_to_event [OF assms(1)])
  have bad: "converter_to_event rt \<lparr>definitions = [?d]\<rparr> body = Inl e"
    if "extract_when rt body = Inl e" for e
    using that by (simp add: conv catchall_to_event [OF assms(1)])
  have never: "converter_to_event rt \<lparr>definitions = [?d]\<rparr> body \<noteq> Inr None"
    by (cases "extract_when rt body") (simp_all add: conv catchall_to_event [OF assms(1)])
  from init_empty_True cat default_traits_built default_definitions_names ok bad never
  show ?thesis by (intro conjI allI impI)
qed


theorem empty_config_catchall_witness:
  "extract_when sample_runtime
     [(''event_type'', JStr ''bogus.notification.from.mars''), (''message_id'', JStr ''uuid-2''),
      (''publisher_id'', JStr ''compute.host-1-2-3''), (''timestamp'', JStr ''2013-08-08 21:06:37.803826'')]
   = Inr ''2013-08-08 21:06:37.803826'' \<and>
   (\<exists>ev. converter_to_event sample_runtime
           \<lparr>definitions = [\<lparr>included_types = [''*''], excluded_types = [], traits = default_definitions\<rparr>]\<rparr>
           [(''event_type'', JStr ''bogus.notification.from.mars''), (''message_id'', JStr ''uuid-2''),
            (''publisher_id'', JStr ''compute.host-1-2-3''),
            (''timestamp'', JStr ''2013-08-08 21:06:37.803826'')] = Inr (Some ev) \<and>
         event_name ev = JStr ''bogus.notification.from.mars'' \<and>
         generated ev = ''2013-08-08 21:06:37.803826'' \<and> length (event_traits ev) \<le> 4)"
proof -
  let ?body = "[(''event_type'', JStr ''bogus.notification.from.mars''), (''message_id'', JStr ''uuid-2''),
      (''publisher_id'', JStr ''compute.host-1-2-3''), (''timestamp'', JStr ''2013-08-08 21:06:37.803826'')]"
  have e: "map_of ?body ''event_type'' = Some (JStr ''bogus.notification.from.mars'')" by simp
  have m: "map_of ?body ''message_id'' = Some (JStr ''uuid-2'')" by simp
  have w: "extract_when sample_runtime ?body = Inr ''2013-08-08 21:06:37.803826''"
    by (simp add: extract_when_def sample_runtime_def)
  note th = empty_config_catchall [OF e m, of sample_runtime,
      THEN conjunct2, THEN conjunct2, THEN conjunct2, THEN conjunct2, THEN conjunct1, rule_format, OF w]
  from w th show ?thesis by (intro conjI)
qed

section \<open>The generation time of an event\<close>

lemma definition_to_event_generated:
  "definition_to_event rt d body = Inr ev \<Longrightarrow> extract_when rt body = Inr (generated ev)"
  by (auto simp: definition_to_event_def split: option.splits sum.splits)

text \<open>
  Claim C9. The generation time of an event is what \<open>_extract_when\<close> returns. A
  notification that carries a \<open>timestamp\<close> (a value that is not null or empty) takes it
  from there, parsed by the timestamp parser, whether or not it also carries a
  \<open>_context_timestamp\<close>; one that carries only a \<open>_context_timestamp\<close> takes it from
  that; one that carries neither gets the current time of the clock.
\<close>

theorem extract_when_precedence:
  "(map_of body ''timestamp'' = Some v \<and> truthy v \<longrightarrow>
      extract_when rt body = parse_time rt v) \<and>
   (map_of body ''timestamp'' = None \<and> map_of body ''_context_timestamp'' = Some v \<and> truthy v \<longrightarrow>
      extract_when rt body = parse_time rt v) \<and>
   (map_of body ''timestamp'' = None \<and> map_of body ''_context_timestamp'' = None \<longrightarrow>
      extract_when rt body = Inr (utcnow rt)) \<and>
   (definition_to_event rt d body = Inr ev \<longrightarrow> extract_when rt body = Inr (generated ev))"
proof -
  have a: "map_of body ''timestamp'' = Some v \<and> truthy v \<longrightarrow>
      extract_when rt body = parse_time rt v"
    by (simp add: extract_when_def)
  have b: "map_of body ''timestamp'' = None \<and> map_of body ''_context_timestamp'' = Some v \<and> truthy v \<longrightarrow>
      extract_when rt body = parse_time rt v"
    by (simp add: extract_when_def)
  have c: "map_of body ''timestamp'' = None \<and> map_of body ''_context_timestamp'' = None \<longrightarrow>
      extract_when rt body = Inr (utcnow rt)"
    by (simp add: extract_when_def)
  have d: "definition_to_event rt d body = Inr ev \<longrightarrow> extract_when rt body = Inr (generated ev)"
    using definition_to_event_generated [of rt d body ev] by simp
  from a b c d show ?thesis by (intro conjI)
qed

theorem extract_when_precedence_witness:
  "extract_when sample_runtime
     [(''timestamp'', JStr ''2013-08-08 21:06:37''), (''_context_timestamp'', JStr ''2013-08-08 22:05:37'')]
     = Inr ''2013-08-08 21:06:37'' \<and>
   extract_when sample_runtime [(''_context_timestamp'', JStr ''2013-08-08 22:05:37'')]
     = Inr ''2013-08-08 22:05:37'' \<and>
   extract_when sample_runtime [] = Inr (utcnow sample_runtime) \<and>
   definition_to_event sample_runtime \<lparr>included_types = [''*''], excluded_types = [], traits = []\<rparr>
     [(''event_type'', JStr ''test.thing''), (''timestamp'', JStr ''2013-08-08 21:06:37''),
      (''_context_timestamp'', JStr ''2013-08-08 22:05:37'')]
     = Inr \<lparr>event_name = JStr ''test.thing'', generated = ''2013-08-08 21:06:37'', event_traits = []\<rparr>"
proof -
  let ?b1 = "[(''timestamp'', JStr ''2013-08-08 21:06:37''), (''_context_timestamp'', JStr ''2013-08-08 22:05:37'')]"
  let ?b2 = "[(''_context_timestamp'', JStr ''2013-08-08 22:05:37'')]"
  have p1: "parse_time sample_runtime (JStr ''2013-08-08 21:06:37'') = Inr ''2013-08-08 21:06:37''"
    by (simp add: sample_runtime_def)
  have p2: "parse_time sample_runtime (JStr ''2013-08-08 22:05:37'') = Inr ''2013-08-08 22:05:37''"
    by (simp add: sample_runtime_def)
  have a: "extract_when sample_runtime ?b1 = Inr ''2013-08-08 21:06:37''"
    using extract_when_precedence [THEN conjunct1, of ?b1 "JStr ''2013-08-08 21:06:37''" sample_runtime]
    by (simp add: p1)
  have b: "extract_when sample_runtime ?b2 = Inr ''2013-08-08 22:05:37''"
    using extract_when_precedence [THEN conjunct2, THEN conjunct1,
        of ?b2 "JStr ''2013-08-08 22:05:37''" sample_runtime]
    by (simp add: p2)
  have c: "extract_when sample_runtime [] = Inr (utcnow sample_runtime)"
    using extract_when_precedence [THEN conjunct2, THEN conjunct2, THEN conjunct1, of "[]" sample_runtime]
    by simp
  have d: "definition_to_event sample_runtime \<lparr>included_types = [''*''], excluded_types = [], traits = []\<rparr>
     [(''event_type'', JStr ''test.thing''), (''timestamp'', JStr ''2013-08-08 21:06:37''),
      (''_context_timestamp'', JStr ''2013-08-08 22:05:37'')]
     = Inr \<lparr>event_name = JStr ''test.thing'', generated = ''2013-08-08 21:06:37'', event_traits = []\<rparr>"
    by (simp add: definition_to_event_def extract_when_def p1)
  from a b c d show ?thesis by (intro conjI)
qed

text \<open>
  Claim C10. When the key \<open>timestamp\<close> is present, the result depends on its value
  alone: \<open>_context_timestamp\<close> plays no part. When its value is null or the empty
  string the result is the current time. The value of \<open>_context_timestamp\<close> is used
  only when the key \<open>timestamp\<close> is absent, and a null or empty value there gives the
  current time as well.
\<close>

theorem extract_when_null_timestamp:
  "(map_of body ''timestamp'' = Some v \<longrightarrow>
      extract_when rt body = extract_when rt [(''timestamp'', v)]) \<and>
   (map_of body ''timestamp'' = Some JNull \<or> map_of body ''timestamp'' = Some (JStr '''') \<longrightarrow>
      extract_when rt body = Inr (utcnow rt)) \<and>
   (map_of body ''timestamp'' = None \<longrightarrow>
      extract_when rt body =
        (case map_of body ''_context_timestamp'' of
           None \<Rightarrow> Inr (utcnow rt)
         | Some c \<Rightarrow> if truthy c then parse_time rt c else Inr (utcnow rt))) \<and>
   \<not> truthy JNull \<and> \<not> truthy (JStr '''')"
proof -
  have a: "map_of body ''timestamp'' = Some v \<longrightarrow>
      extract_when rt body = extract_when rt [(''timestamp'', v)]"
    by (simp add: extract_when_def)
  have b: "map_of body ''timestamp'' = Some JNull \<or> map_of body ''timestamp'' = Some (JStr '''') \<longrightarrow>
      extract_when rt body = Inr (utcnow rt)"
    by (auto simp: extract_when_def)
  have c: "map_of body ''timestamp'' = None \<longrightarrow>
      extract_when rt body =
        (case map_of body ''_context_timestamp'' of
           None \<Rightarrow> Inr (utcnow rt)
         | Some c \<Rightarrow> if truthy c then parse_time rt c else Inr (utcnow rt))"
    by (simp add: extract_when_def split: option.split)
  have d: "\<not> truthy JNull" and e: "\<not> truthy (JStr '''')" by simp_all
  from a b c d e show ?thesis by (intro conjI)
qed

theorem extract_when_null_timestamp_witness:
  "extract_when sample_runtime
     [(''timestamp'', JNull), (''_context_timestamp'', JStr ''2013-08-08 22:05:37'')]
     = Inr (utcnow sample_runtime) \<and>
   extract_when sample_runtime
     [(''timestamp'', JStr ''''), (''_context_timestamp'', JStr ''2013-08-08 22:05:37'')]
     = Inr (utcnow sample_runtime) \<and>
   extract_when sample_runtime [(''_context_timestamp'', JNull)] = Inr (utcnow sample_runtime) \<and>
   extract_when sample_runtime [(''_context_timestamp'', JStr ''2013-08-08 22:05:37'')]
     = Inr ''2013-08-08 22:05:37''"
proof -
  let ?c = "(''_context_timestamp'', JStr ''2013-08-08 22:05:37'')"
  have a: "extract_when sample_runtime [(''timestamp'', JNull), ?c] = Inr (utcnow sample_runtime)"
    using extract_when_null_timestamp [THEN conjunct2, THEN conjunct1,
        of "[(''timestamp'', JNull), ?c]" sample_runtime]
    by simp
  have b: "extract_when sample_runtime [(''timestamp'', JStr ''''), ?c] = Inr (utcnow sample_runtime)"
    using extract_when_null_timestamp [THEN conjunct2, THEN conjunct1,
        of "[(''timestamp'', JStr ''''), ?c]" sample_runtime]
    by simp
  have c: "extract_when sample_runtime [(''_context_timestamp'', JNull)] = Inr (utcnow sample_runtime)"
    using extract_when_null_timestamp [THEN conjunct2, THEN conjunct2, THEN conjunct1,
        of "[(''_context_timestamp'', JNull)]" sample_runtime]
    by simp
  have d: "extract_when sample_runtime [?c] = Inr ''2013-08-08 22:05:37''"
    using extract_when_null_timestamp [THEN conjunct2, THEN conjunct2, THEN conjunct1,
        of "[?c]" sample_runtime]
    by (simp add: sample_runtime_def)
  from a b c d show ?thesis by (intro conjI)
qed

section \<open>Traits of an event\<close>

lemma find_filter:
  "List.find P xs = (case filter P xs of [] \<Rightarrow> None | x # _ \<Rightarrow> Some x)"
  by (induction xs) simp_all

lemma to_trait_find:
  "to_trait rt td body =
     (case List.find (\<lambda>v. v \<noteq> JNull) (jsonpath_find (fields_path td) (JDict body)) of
        None \<Rightarrow> Inr None
      | Some v \<Rightarrow>
          (case convert_value rt (trait_type td) v of
             Inl e \<Rightarrow> Inl e
           | Inr x \<Rightarrow> Inr (Some \<lparr>trait_name = name td, dtype = trait_type td, trait_value = x\<rparr>)))"
  by (simp add: to_trait_def find_filter split: list.split)

lemma find_None_all_null:
  "List.find (\<lambda>v. v \<noteq> JNull) xs = None \<longleftrightarrow> (\<forall>v \<in> set xs. v = JNull)"
  by (auto simp: find_None_iff)

lemma join_union_Some:
  "join_union (Some a) (map Some ps) = Some (foldl Union_path a ps)"
  by (induction ps arbitrary: a) simp_all

lemma jsonpath_find_foldl_Union:
  "jsonpath_find (foldl Union_path a ps) doc =
     jsonpath_find a doc @ concat (map (\<lambda>p. jsonpath_find p doc) ps)"
  by (induction ps arbitrary: a) simp_all

lemma parse_fields_list:
  assumes "parse_fields (FieldsList (map Some ps)) = Some q"
  shows "jsonpath_find q doc = concat (map (\<lambda>p. jsonpath_find p doc) ps)"
proof (cases ps)
  case Nil
  with assms show ?thesis by (simp add: parse_fields_def)
next
  case (Cons p ps')
  show ?thesis
  proof (cases ps')
    case Nil
    with Cons assms show ?thesis by (simp add: parse_fields_def)
  next
    case (Cons p' ps'')
    with \<open>ps = p # ps'\<close> assms have "q = foldl Union_path p ps'"
      using join_union_Some [of p ps'] by (simp add: parse_fields_def)
    with \<open>ps = p # ps'\<close> show ?thesis by (simp add: jsonpath_find_foldl_Union)
  qed
qed

lemma TraitDefinition_init_list:
  assumes "TraitDefinition_init nm \<lparr>cfg_type = ty, cfg_fields = Some (FieldsList (map Some ps))\<rparr> = Inr td"
  shows "jsonpath_find (fields_path td) doc = concat (map (\<lambda>p. jsonpath_find p doc) ps)"
proof -
  from assms obtain q where q: "parse_fields (FieldsList (map Some ps)) = Some q"
    by (cases "parse_fields (FieldsList (map Some ps))") (simp_all add: TraitDefinition_init_def)
  with assms have "fields_path td = q"
    by (auto simp: TraitDefinition_init_def split: option.splits)
  with parse_fields_list [OF q] show ?thesis by simp
qed

lemma TraitDefinition_init_name:
  "TraitDefinition_init nm cfg = Inr td \<Longrightarrow> name td = nm"
  by (auto simp: TraitDefinition_init_def split: option.splits)

lemma update_named:
  "\<forall>p \<in> set al. name (snd p) = fst p \<Longrightarrow> name td = k \<Longrightarrow>
   \<forall>p \<in> set (AList.update k td al). name (snd p) = fst p"
  by (induction al) auto

lemma build_traits_invariant:
  "build_traits cfgs acc = Inr ts \<Longrightarrow> distinct (map fst acc) \<Longrightarrow>
   \<forall>p \<in> set acc. name (snd p) = fst p \<Longrightarrow>
   distinct (map fst ts) \<and> (\<forall>p \<in> set ts. name (snd p) = fst p)"
proof (induction cfgs acc rule: build_traits.induct)
  case (1 acc)
  then show ?case by simp
next
  case (2 nm cfg rest acc)
  from "2.prems"(1) obtain td where td: "TraitDefinition_init nm cfg = Inr td"
    by (cases "TraitDefinition_init nm cfg") simp_all
  with "2.prems"(1) have rest: "build_traits rest (AList.update nm td acc) = Inr ts" by simp
  have d: "distinct (map fst (AList.update nm td acc))"
    using "2.prems"(2) by (rule distinct_update)
  have n: "\<forall>p \<in> set (AList.update nm td acc). name (snd p) = fst p"
    using "2.prems"(3) TraitDefinition_init_name [OF td] by (rule update_named)
  from "2.IH" [OF td rest d n] show ?case .
qed

lemma EventDefinition_init_traits:
  assumes "EventDefinition_init cfg = Inr d"
  shows "distinct (map name (map snd (traits d)))"
proof -
  from assms obtain et where et: "cfg_event_type cfg = Some et"
    by (cases "cfg_event_type cfg") (simp_all add: EventDefinition_init_eq)
  from assms et obtain tcs where tcs: "cfg_traits cfg = Some tcs"
    by (cases "cfg_traits cfg") (simp_all add: EventDefinition_init_eq)
  from assms et tcs obtain ts where ts: "build_traits tcs default_definitions = Inr ts"
    by (cases "build_traits tcs default_definitions") (simp_all add: EventDefinition_init_eq)
  from assms have tr: "traits d = ts"
    by (auto simp: EventDefinition_init_eq et tcs ts)
  have "distinct (map fst default_definitions)"
    and "\<forall>p \<in> set default_definitions. name (snd p) = fst p"
    by (simp_all add: default_definitions_def)
  from build_traits_invariant [OF ts this]
  have "distinct (map fst ts)" and "\<forall>p \<in> set ts. name (snd p) = fst p" by simp_all
  then have "map name (map snd ts) = map fst ts" and "distinct (map fst ts)"
    by (simp_all cong: map_cong)
  then show ?thesis by (simp only: tr)
qed


lemma to_trait_None:
  "to_trait rt td body = Inr None \<longleftrightarrow>
     (\<forall>v \<in> set (jsonpath_find (fields_path td) (JDict body)). v = JNull)"
proof (cases "List.find (\<lambda>v. v \<noteq> JNull) (jsonpath_find (fields_path td) (JDict body))")
  case None
  then show ?thesis
    using find_None_all_null [of "jsonpath_find (fields_path td) (JDict body)"]
    by (simp add: to_trait_find)
next
  case (Some v)
  then have "to_trait rt td body \<noteq> Inr None"
    by (cases "convert_value rt (trait_type td) v") (simp_all add: to_trait_find)
  then show ?thesis
    using Some find_None_all_null [of "jsonpath_find (fields_path td) (JDict body)"]
    by simp
qed

lemma to_trait_Some:
  assumes "to_trait rt td body = Inr (Some t)"
  shows "\<exists>v. List.find (\<lambda>v. v \<noteq> JNull) (jsonpath_find (fields_path td) (JDict body)) = Some v \<and>
             v \<noteq> JNull \<and> trait_name t = name td \<and> dtype t = trait_type td \<and>
             convert_value rt (trait_type td) v = Inr (trait_value t)"
proof (cases "List.find (\<lambda>v. v \<noteq> JNull) (jsonpath_find (fields_path td) (JDict body))")
  case None
  with assms show ?thesis by (simp add: to_trait_find)
next
  case (Some v)
  then have nn: "v \<noteq> JNull" by (auto simp: find_Some_iff)
  from assms Some obtain x where x: "convert_value rt (trait_type td) v = Inr x"
    by (cases "convert_value rt (trait_type td) v") (simp_all add: to_trait_find)
  with assms Some have "t = \<lparr>trait_name = name td, dtype = trait_type td, trait_value = x\<rparr>"
    by (simp add: to_trait_find)
  with Some nn x show ?thesis by simp
qed

lemma collect_traits_Cons:
  assumes "collect_traits rt (td # tds) body = Inr ts"
  obtains r ts' where "to_trait rt td body = Inr r" "collect_traits rt tds body = Inr ts'"
    "ts = (case r of None \<Rightarrow> ts' | Some t \<Rightarrow> t # ts')"
proof -
  from assms obtain r where r: "to_trait rt td body = Inr r"
    by (cases "to_trait rt td body") simp_all
  with assms obtain ts' where ts': "collect_traits rt tds body = Inr ts'"
    by (cases "collect_traits rt tds body") simp_all
  with assms r have "ts = (case r of None \<Rightarrow> ts' | Some t \<Rightarrow> t # ts')" by simp
  with r ts' show thesis by (rule that)
qed

lemma collect_traits_names:
  "collect_traits rt tds body = Inr ts \<Longrightarrow>
   map trait_name ts =
     map name (filter (\<lambda>td. \<exists>v \<in> set (jsonpath_find (fields_path td) (JDict body)). v \<noteq> JNull) tds)"
proof (induction tds arbitrary: ts)
  case Nil
  then show ?case by simp
next
  case (Cons td tds)
  from Cons.prems obtain r ts' where r: "to_trait rt td body = Inr r"
    and ts': "collect_traits rt tds body = Inr ts'"
    and ts: "ts = (case r of None \<Rightarrow> ts' | Some t \<Rightarrow> t # ts')"
    by (rule collect_traits_Cons)
  note IH = Cons.IH [OF ts']
  show ?case
  proof (cases r)
    case None
    with r have "\<forall>v \<in> set (jsonpath_find (fields_path td) (JDict body)). v = JNull"
      by (simp add: to_trait_None)
    with None ts IH show ?thesis by simp
  next
    case (Some t)
    with r have "to_trait rt td body = Inr (Some t)" by simp
    from to_trait_Some [OF this] obtain v
      where f: "List.find (\<lambda>v. v \<noteq> JNull) (jsonpath_find (fields_path td) (JDict body)) = Some v"
        and nn: "v \<noteq> JNull" and nm: "trait_name t = name td"
      by auto
    from f have "v \<in> set (jsonpath_find (fields_path td) (JDict body))"
      by (auto simp: find_Some_iff)
    with nn have "\<exists>v \<in> set (jsonpath_find (fields_path td) (JDict body)). v \<noteq> JNull" by auto
    with Some ts IH nm show ?thesis by simp
  qed
qed

lemma collect_traits_members:
  "collect_traits rt tds body = Inr ts \<Longrightarrow> t \<in> set ts \<Longrightarrow>
   \<exists>td \<in> set tds. to_trait rt td body = Inr (Some t)"
proof (induction tds arbitrary: ts)
  case Nil
  then show ?case by simp
next
  case (Cons td tds)
  from Cons.prems(1) obtain r ts' where r: "to_trait rt td body = Inr r"
    and ts': "collect_traits rt tds body = Inr ts'"
    and ts: "ts = (case r of None \<Rightarrow> ts' | Some t \<Rightarrow> t # ts')"
    by (rule collect_traits_Cons)
  show ?case
  proof (cases "t \<in> set ts'")
    case True
    from Cons.IH [OF ts' True] show ?thesis by auto
  next
    case False
    with Cons.prems(2) ts have "r = Some t" by (cases r) auto
    with r show ?thesis by simp
  qed
qed

lemma definition_to_event_traits:
  "definition_to_event rt d body = Inr ev \<Longrightarrow>
   collect_traits rt (map snd (traits d)) body = Inr (event_traits ev)"
  by (auto simp: definition_to_event_def split: option.splits sum.splits)


text \<open>
  Claim C5. A trait definition looks at the values its path query finds, in the order of
  the declared alternatives, and takes the first one that is not null: when there is none
  (every alternative is absent or null) it yields no trait, otherwise the trait holds the
  conversion of that value. For a definition built from a list of alternative paths the
  values found are those of the first path, then those of the second, and so on. In an
  event produced by a built event definition every trait therefore carries the converted
  first non-null value of a trait definition of that name; a trait definition all of
  whose values are absent or null has no trait of its name in the event; and the traits
  of the event are, in order, those of the trait definitions that find a non-null value.
\<close>

theorem traits_from_first_non_null:
  "(to_trait rt td body =
      (case List.find (\<lambda>v. v \<noteq> JNull) (jsonpath_find (fields_path td) (JDict body)) of
         None \<Rightarrow> Inr None
       | Some v \<Rightarrow>
           (case convert_value rt (trait_type td) v of
              Inl e \<Rightarrow> Inl e
            | Inr x \<Rightarrow> Inr (Some \<lparr>trait_name = name td, dtype = trait_type td, trait_value = x\<rparr>)))) \<and>
   (TraitDefinition_init nm \<lparr>cfg_type = ty, cfg_fields = Some (FieldsList (map Some paths))\<rparr> = Inr td' \<longrightarrow>
      jsonpath_find (fields_path td') doc = concat (map (\<lambda>p. jsonpath_find p doc) paths)) \<and>
   (EventDefinition_init cfg = Inr d \<and> definition_to_event rt d body = Inr ev \<longrightarrow>
      (\<forall>t \<in> set (event_traits ev). \<exists>td \<in> set (map snd (traits d)). \<exists>v.
          v \<noteq> JNull \<and>
          List.find (\<lambda>v. v \<noteq> JNull) (jsonpath_find (fields_path td) (JDict body)) = Some v \<and>
          trait_name t = name td \<and> dtype t = trait_type td \<and>
          convert_value rt (trait_type td) v = Inr (trait_value t)) \<and>
      (\<forall>td \<in> set (map snd (traits d)).
          (\<forall>v \<in> set (jsonpath_find (fields_path td) (JDict body)). v = JNull) \<longrightarrow>
          name td \<notin> set (map trait_name (event_traits ev))) \<and>
      map trait_name (event_traits ev) =
        map name (filter (\<lambda>td. \<exists>v \<in> set (jsonpath_find (fields_path td) (JDict body)). v \<noteq> JNull)
                    (map snd (traits d))))"
proof (intro conjI impI)
  show "to_trait rt td body =
      (case List.find (\<lambda>v. v \<noteq> JNull) (jsonpath_find (fields_path td) (JDict body)) of
         None \<Rightarrow> Inr None
       | Some v \<Rightarrow>
           (case convert_value rt (trait_type td) v of
              Inl e \<Rightarrow> Inl e
            | Inr x \<Rightarrow> Inr (Some \<lparr>trait_name = name td, dtype = trait_type td, trait_value = x\<rparr>)))"
    by (rule to_trait_find)
next
  assume "TraitDefinition_init nm \<lparr>cfg_type = ty, cfg_fields = Some (FieldsList (map Some paths))\<rparr> = Inr td'"
  then show "jsonpath_find (fields_path td') doc = concat (map (\<lambda>p. jsonpath_find p doc) paths)"
    by (rule TraitDefinition_init_list)
next
  assume "EventDefinition_init cfg = Inr d \<and> definition_to_event rt d body = Inr ev"
  then have col: "collect_traits rt (map snd (traits d)) body = Inr (event_traits ev)"
    by (simp add: definition_to_event_traits)
  show "\<forall>t \<in> set (event_traits ev). \<exists>td \<in> set (map snd (traits d)). \<exists>v.
          v \<noteq> JNull \<and>
          List.find (\<lambda>v. v \<noteq> JNull) (jsonpath_find (fields_path td) (JDict body)) = Some v \<and>
          trait_name t = name td \<and> dtype t = trait_type td \<and>
          convert_value rt (trait_type td) v = Inr (trait_value t)"
  proof
    fix t assume "t \<in> set (event_traits ev)"
    from collect_traits_members [OF col this] obtain td
      where td: "td \<in> set (map snd (traits d))" and tt: "to_trait rt td body = Inr (Some t)"
      by (rule bexE)
    from to_trait_Some [OF tt] obtain v
      where "List.find (\<lambda>v. v \<noteq> JNull) (jsonpath_find (fields_path td) (JDict body)) = Some v"
        "v \<noteq> JNull" "trait_name t = name td" "dtype t = trait_type td"
        "convert_value rt (trait_type td) v = Inr (trait_value t)"
      by auto
    then have "\<exists>v. v \<noteq> JNull \<and>
          List.find (\<lambda>v. v \<noteq> JNull) (jsonpath_find (fields_path td) (JDict body)) = Some v \<and>
          trait_name t = name td \<and> dtype t = trait_type td \<and>
          convert_value rt (trait_type td) v = Inr (trait_value t)"
      by (intro exI [of _ v]) simp
    with td show "\<exists>td \<in> set (map snd (traits d)). \<exists>v.
          v \<noteq> JNull \<and>
          List.find (\<lambda>v. v \<noteq> JNull) (jsonpath_find (fields_path td) (JDict body)) = Some v \<and>
          trait_name t = name td \<and> dtype t = trait_type td \<and>
          convert_value rt (trait_type td) v = Inr (trait_value t)"
      by (rule bexI [rotated])
  qed
next
  assume a: "EventDefinition_init cfg = Inr d \<and> definition_to_event rt d body = Inr ev"
  then have col: "collect_traits rt (map snd (traits d)) body = Inr (event_traits ev)"
    by (simp add: definition_to_event_traits)
  from a have "EventDefinition_init cfg = Inr d" by (rule conjunct1)
  then have dist: "distinct (map name (map snd (traits d)))"
    by (rule EventDefinition_init_traits)
  then have inj: "inj_on name (set (map snd (traits d)))"
    by (simp only: distinct_map)
  define tds where "tds = map snd (traits d)"
  define P where "P = (\<lambda>td :: trait_definition. \<exists>v \<in> set (jsonpath_find (fields_path td) (JDict body)). v \<noteq> JNull)"
  have eqn: "map trait_name (event_traits ev) = map name (filter P tds)"
    unfolding tds_def P_def using col by (rule collect_traits_names)
  have inj': "inj_on name (set tds)" unfolding tds_def by (rule inj)
  have "name td \<notin> set (map trait_name (event_traits ev))"
    if td: "td \<in> set tds" and null: "\<not> P td" for td
  proof
    assume "name td \<in> set (map trait_name (event_traits ev))"
    then have "name td \<in> name ` set (filter P tds)" by (simp only: eqn set_map)
    then obtain td2 where e: "name td = name td2" and m2: "td2 \<in> set (filter P tds)"
      by (rule imageE)
    from m2 have t2: "td2 \<in> set tds" and has: "P td2" by simp_all
    from inj' e td t2 have "td = td2" by (rule inj_onD)
    with has null show False by simp
  qed
  then show "\<forall>td \<in> set (map snd (traits d)).
          (\<forall>v \<in> set (jsonpath_find (fields_path td) (JDict body)). v = JNull) \<longrightarrow>
          name td \<notin> set (map trait_name (event_traits ev))"
    unfolding tds_def P_def by blast
next
  assume "EventDefinition_init cfg = Inr d \<and> definition_to_event rt d body = Inr ev"
  then have col: "collect_traits rt (map snd (traits d)) body = Inr (event_traits ev)"
    by (simp add: definition_to_event_traits)
  then show "map trait_name (event_traits ev) =
        map name (filter (\<lambda>td. \<exists>v \<in> set (jsonpath_find (fields_path td) (JDict body)). v \<noteq> JNull)
                    (map snd (traits d)))"
    by (rule collect_traits_names)
qed


theorem traits_from_first_non_null_witness:
  "EventDefinition_init
     \<lparr>cfg_event_type = Some (TypeString ''test.thing''),
        cfg_traits = Some
          [(''instance_id'',
              \<lparr>cfg_type = Some ''text'',
               cfg_fields = Some (FieldsList [Some (Child (Fields ''payload'') (Fields ''instance_uuid'')),
                                              Some (Child (Fields ''payload'') (Fields ''instance_id''))])\<rparr>),
           (''host'',
              \<lparr>cfg_type = Some ''text'',
               cfg_fields = Some (FieldsString (Some (Child (Fields ''payload'') (Fields ''host''))))\<rparr>)]\<rparr> =
   Inr \<lparr>included_types = [''test.thing''], excluded_types = [],
        traits = default_definitions @
          [(''instance_id'',
              \<lparr>name = ''instance_id'',
               fields_path = Union_path (Child (Fields ''payload'') (Fields ''instance_uuid''))
                                        (Child (Fields ''payload'') (Fields ''instance_id'')),
               trait_type = TEXT_TYPE\<rparr>),
           (''host'',
              \<lparr>name = ''host'', fields_path = Child (Fields ''payload'') (Fields ''host''),
                trait_type = TEXT_TYPE\<rparr>)]\<rparr> \<and>
   definition_to_event sample_runtime
     \<lparr>included_types = [''test.thing''], excluded_types = [],
        traits = default_definitions @
          [(''instance_id'',
              \<lparr>name = ''instance_id'',
               fields_path = Union_path (Child (Fields ''payload'') (Fields ''instance_uuid''))
                                        (Child (Fields ''payload'') (Fields ''instance_id'')),
               trait_type = TEXT_TYPE\<rparr>),
           (''host'',
              \<lparr>name = ''host'', fields_path = Child (Fields ''payload'') (Fields ''host''),
                trait_type = TEXT_TYPE\<rparr>)]\<rparr>
     [(''event_type'', JStr ''test.thing''), (''message_id'', JStr ''uuid-for-notif-0003''),
      (''payload'', JDict [(''instance_id'', JStr ''uuid-for-instance-0003''), (''host'', JNull)])] =
   Inr \<lparr>event_name = JStr ''test.thing'', generated = ''2013-08-08 21:06:37'',
        event_traits =
          [\<lparr>trait_name = ''message_id'', dtype = TEXT_TYPE, trait_value = TextValue ''uuid-for-notif-0003''\<rparr>,
           \<lparr>trait_name = ''instance_id'', dtype = TEXT_TYPE,
            trait_value = TextValue ''uuid-for-instance-0003''\<rparr>]\<rparr> \<and>
   ''host'' \<notin> set (map trait_name (event_traits
     \<lparr>event_name = JStr ''test.thing'', generated = ''2013-08-08 21:06:37'',
        event_traits =
          [\<lparr>trait_name = ''message_id'', dtype = TEXT_TYPE, trait_value = TextValue ''uuid-for-notif-0003''\<rparr>,
           \<lparr>trait_name = ''instance_id'', dtype = TEXT_TYPE,
            trait_value = TextValue ''uuid-for-instance-0003''\<rparr>]\<rparr>))"
proof -
  let ?cfg = "\<lparr>cfg_event_type = Some (TypeString ''test.thing''),
        cfg_traits = Some
          [(''instance_id'',
              \<lparr>cfg_type = Some ''text'',
               cfg_fields = Some (FieldsList [Some (Child (Fields ''payload'') (Fields ''instance_uuid'')),
                                              Some (Child (Fields ''payload'') (Fields ''instance_id''))])\<rparr>),
           (''host'',
              \<lparr>cfg_type = Some ''text'',
               cfg_fields = Some (FieldsString (Some (Child (Fields ''payload'') (Fields ''host''))))\<rparr>)]\<rparr>"
  let ?d = "\<lparr>included_types = [''test.thing''], excluded_types = [],
        traits = default_definitions @
          [(''instance_id'',
              \<lparr>name = ''instance_id'',
               fields_path = Union_path (Child (Fields ''payload'') (Fields ''instance_uuid''))
                                        (Child (Fields ''payload'') (Fields ''instance_id'')),
               trait_type = TEXT_TYPE\<rparr>),
           (''host'',
              \<lparr>name = ''host'', fields_path = Child (Fields ''payload'') (Fields ''host''),
                trait_type = TEXT_TYPE\<rparr>)]\<rparr>"
  let ?body = "[(''event_type'', JStr ''test.thing''), (''message_id'', JStr ''uuid-for-notif-0003''),
      (''payload'', JDict [(''instance_id'', JStr ''uuid-for-instance-0003''), (''host'', JNull)])]"
  let ?ev = "\<lparr>event_name = JStr ''test.thing'', generated = ''2013-08-08 21:06:37'',
        event_traits =
          [\<lparr>trait_name = ''message_id'', dtype = TEXT_TYPE, trait_value = TextValue ''uuid-for-notif-0003''\<rparr>,
           \<lparr>trait_name = ''instance_id'', dtype = TEXT_TYPE,
            trait_value = TextValue ''uuid-for-instance-0003''\<rparr>]\<rparr>"
  let ?host = "\<lparr>name = ''host'', fields_path = Child (Fields ''payload'') (Fields ''host''),
                trait_type = TEXT_TYPE\<rparr>"
  have i: "EventDefinition_init ?cfg = Inr ?d"
    by (simp add: EventDefinition_init_eq type_entries_def startswith_bang_def
          TraitDefinition_init_def parse_fields_def trait_type_named_text default_definitions_def)
  have ev: "definition_to_event sample_runtime ?d ?body = Inr ?ev"
    by (simp add: definition_to_event_def extract_when_def to_trait_def sample_runtime_def
          default_definitions_def)
  have mem: "?host \<in> set (map snd (traits ?d))" by simp
  have null: "\<forall>v \<in> set (jsonpath_find (fields_path ?host) (JDict ?body)). v = JNull" by simp
  from i ev have both: "EventDefinition_init ?cfg = Inr ?d \<and>
      definition_to_event sample_runtime ?d ?body = Inr ?ev" by (rule conjI)
  note th = traits_from_first_non_null [THEN conjunct2, THEN conjunct2, THEN mp, OF both,
      THEN conjunct2, THEN conjunct1, THEN bspec, OF mem, THEN mp, OF null]
  then have "''host'' \<notin> set (map trait_name (event_traits ?ev))" by simp
  with i ev show ?thesis by (intro conjI)
qed

section \<open>Integer traits and conversion errors\<close>

lemma digit_not_space: "is_digit c \<Longrightarrow> \<not> is_space c"
  by (auto simp: is_digit_def is_space_def)

lemma digit_not_sign: "is_digit c \<Longrightarrow> c \<noteq> CHR ''-'' \<and> c \<noteq> CHR ''+''"
  by (auto simp: is_digit_def)

lemma digits_value_sum:
  "list_all is_digit ds \<Longrightarrow>
   digits_value acc ds =
     Some (acc * 10 ^ length ds + (\<Sum>i<length ds. digit_value (ds ! i) * 10 ^ (length ds - 1 - i)))"
proof (induction ds arbitrary: acc)
  case Nil
  then show ?case by simp
next
  case (Cons c cs)
  then have c: "is_digit c" and cs: "list_all is_digit cs" by simp_all
  have "(\<Sum>i<Suc (length cs). digit_value ((c # cs) ! i) * 10 ^ (Suc (length cs) - 1 - i)) =
        digit_value c * 10 ^ length cs + (\<Sum>i<length cs. digit_value (cs ! i) * 10 ^ (length cs - 1 - i))"
    by (simp add: sum.lessThan_Suc_shift del: sum.lessThan_Suc)
  with Cons.IH [OF cs, of "10 * acc + digit_value c"] c show ?case
    by (simp add: algebra_simps)
qed

lemma strip_digits:
  assumes "list_all is_digit ds"
  shows "strip ds = ds"
proof (cases ds rule: rev_cases)
  case Nil
  then show ?thesis by (simp add: strip_def)
next
  case (snoc ys y)
  with assms have y: "\<not> is_space y" by (simp add: digit_not_space)
  have front: "dropWhile is_space ds = ds"
  proof (cases ds)
    case Nil
    then show ?thesis by simp
  next
    case (Cons c cs)
    with assms have "\<not> is_space c" by (simp add: digit_not_space)
    with Cons show ?thesis by simp
  qed
  from snoc y have "dropWhile is_space (rev ds) = rev ds" by simp
  with front show ?thesis by (simp add: strip_def)
qed

lemma py_int_digits:
  assumes "list_all is_digit ds" and "ds \<noteq> []"
  shows "py_int (JStr ds) =
           Inr (\<Sum>i<length ds. digit_value (ds ! i) * 10 ^ (length ds - 1 - i))"
proof -
  from assms obtain c cs where ds: "ds = c # cs" by (cases ds) simp_all
  with assms have "is_digit c" by simp
  then have "c \<noteq> CHR ''-''" "c \<noteq> CHR ''+''" by (simp_all add: digit_not_sign)
  moreover have "strip (c # cs) = c # cs"
    using strip_digits [OF assms(1)] by (simp only: ds)
  ultimately have "int_of_string ds = parse_digits ds"
    by (simp add: int_of_string_def ds)
  with assms show ?thesis
    using digits_value_sum [OF assms(1), of 0] by (simp add: parse_digits_def)
qed


lemma digits_value_bad: "\<not> list_all is_digit s \<Longrightarrow> digits_value acc s = None"
  by (induction s arbitrary: acc) auto

lemma mem_dropWhile: "c \<in> set s \<Longrightarrow> \<not> P c \<Longrightarrow> c \<in> set (dropWhile P s)"
  by (induction s) auto

lemma mem_strip:
  assumes "c \<in> set s" and "\<not> is_space c"
  shows "c \<in> set (strip s)"
proof -
  from assms have "c \<in> set (rev (dropWhile is_space s))"
    by (simp add: mem_dropWhile)
  then have "c \<in> set (dropWhile is_space (rev (dropWhile is_space s)))"
    using assms(2) by (rule mem_dropWhile)
  then show ?thesis by (simp add: strip_def)
qed

lemma parse_digits_bad: "c \<in> set s \<Longrightarrow> \<not> is_digit c \<Longrightarrow> parse_digits s = None"
proof -
  assume "c \<in> set s" and "\<not> is_digit c"
  then have "\<not> list_all is_digit s" by (auto simp: list_all_iff)
  then show ?thesis by (simp add: parse_digits_def digits_value_bad)
qed

lemma int_of_string_bad:
  assumes "c \<in> set s" and "\<not> is_digit c" and "\<not> is_space c"
    and "c \<noteq> CHR ''+''" and "c \<noteq> CHR ''-''"
  shows "int_of_string s = None"
proof -
  from mem_strip [OF assms(1,3)] obtain c0 cs where st: "strip s = c0 # cs" and c: "c \<in> set (c0 # cs)"
    by (cases "strip s") auto
  show ?thesis
  proof (cases "c0 = CHR ''-'' \<or> c0 = CHR ''+''")
    case True
    with c assms(4,5) have "c \<in> set cs" by auto
    then have "parse_digits cs = None" using assms(2) by (rule parse_digits_bad)
    with True show ?thesis by (auto simp: int_of_string_def st)
  next
    case False
    from c assms(2) have "parse_digits (c0 # cs) = None" by (rule parse_digits_bad)
    with False show ?thesis by (simp add: int_of_string_def st)
  qed
qed

lemma collect_traits_first_error:
  "\<forall>td' \<in> set pre. \<exists>r. to_trait rt td' body = Inr r \<Longrightarrow> to_trait rt td body = Inl e \<Longrightarrow>
   collect_traits rt (pre @ td # post) body = Inl e"
  by (induction pre) auto

lemma collect_traits_error:
  "td \<in> set tds \<Longrightarrow> to_trait rt td body = Inl e \<Longrightarrow> \<exists>e'. collect_traits rt tds body = Inl e'"
proof (induction tds)
  case Nil
  then show ?case by simp
next
  case (Cons a tds)
  show ?case
  proof (cases "to_trait rt a body")
    case (Inl e0)
    then show ?thesis by simp
  next
    case (Inr r)
    with Cons.prems have "td \<in> set tds" by auto
    from Cons.IH [OF this Cons.prems(2)] obtain e' where "collect_traits rt tds body = Inl e'" ..
    with Inr show ?thesis by simp
  qed
qed

lemma definition_to_event_error:
  assumes "td \<in> set (map snd (traits d))" and "to_trait rt td body = Inl e"
  shows "\<exists>e'. definition_to_event rt d body = Inl e'"
proof -
  from collect_traits_error [OF assms] obtain e'
    where "collect_traits rt (map snd (traits d)) body = Inl e'" ..
  then show ?thesis
    by (simp add: definition_to_event_def split: option.split sum.split)
qed


text \<open>
  Claim C8. For a trait of type Int the first non-null value found is handed to
  \<open>int\<close>: a non-empty run of decimal digits has its base-10 value, and a string with a
  character that is neither a digit, nor white space, nor a sign is a conversion error.
  The trait is then that integer or, when the conversion fails, the error itself, not a
  skipped trait. An error of any trait definition of the rule makes the rule's
  \<open>to_event\<close> end in an error, and so the converter's, when that rule is the one
  selected: no event is returned. When the generation time was extracted and no earlier
  trait definition fails, the error is that of the trait.
\<close>

theorem int_conversion_error_propagates:
  "(list_all is_digit ds \<and> ds \<noteq> [] \<longrightarrow>
      py_int (JStr ds) = Inr (\<Sum>i<length ds. digit_value (ds ! i) * 10 ^ (length ds - 1 - i))) \<and>
   (ch \<in> set s \<and> \<not> is_digit ch \<and> \<not> is_space ch \<and> ch \<noteq> CHR ''+'' \<and> ch \<noteq> CHR ''-'' \<longrightarrow>
      py_int (JStr s) = Inl ValueError) \<and>
   (trait_type td = INT_TYPE \<and>
    List.find (\<lambda>v. v \<noteq> JNull) (jsonpath_find (fields_path td) (JDict body)) = Some v \<longrightarrow>
      to_trait rt td body =
        (case py_int v of
           Inl e \<Rightarrow> Inl e
         | Inr n \<Rightarrow> Inr (Some \<lparr>trait_name = name td, dtype = INT_TYPE, trait_value = IntValue n\<rparr>))) \<and>
   (td \<in> set (map snd (traits d)) \<and> to_trait rt td body = Inl e \<longrightarrow>
      (\<exists>e'. definition_to_event rt d body = Inl e')) \<and>
   (td \<in> set (map snd (traits d)) \<and> to_trait rt td body = Inl e \<and>
    map_of body ''event_type'' = Some (JStr et) \<and> map_of body ''message_id'' = Some mid \<and>
    select_definition (definitions c) et = Some d \<longrightarrow>
      (\<exists>e'. converter_to_event rt c body = Inl e')) \<and>
   (map_of body ''event_type'' = Some etv \<and> extract_when rt body = Inr w \<and>
    map snd (traits d) = pre @ td # post \<and>
    (\<forall>td' \<in> set pre. \<exists>r. to_trait rt td' body = Inr r) \<and> to_trait rt td body = Inl e \<longrightarrow>
      definition_to_event rt d body = Inl e)"
proof (intro conjI impI)
  assume "list_all is_digit ds \<and> ds \<noteq> []"
  then have "list_all is_digit ds" and "ds \<noteq> []" by simp_all
  then show "py_int (JStr ds) = Inr (\<Sum>i<length ds. digit_value (ds ! i) * 10 ^ (length ds - 1 - i))"
    by (rule py_int_digits)
next
  assume "ch \<in> set s \<and> \<not> is_digit ch \<and> \<not> is_space ch \<and> ch \<noteq> CHR ''+'' \<and> ch \<noteq> CHR ''-''"
  then have "int_of_string s = None"
    using int_of_string_bad [of ch s] by simp
  then show "py_int (JStr s) = Inl ValueError" by simp
next
  assume "trait_type td = INT_TYPE \<and>
    List.find (\<lambda>v. v \<noteq> JNull) (jsonpath_find (fields_path td) (JDict body)) = Some v"
  then show "to_trait rt td body =
        (case py_int v of
           Inl e \<Rightarrow> Inl e
         | Inr n \<Rightarrow> Inr (Some \<lparr>trait_name = name td, dtype = INT_TYPE, trait_value = IntValue n\<rparr>))"
    by (simp add: to_trait_find split: sum.split)
next
  assume "td \<in> set (map snd (traits d)) \<and> to_trait rt td body = Inl e"
  then show "\<exists>e'. definition_to_event rt d body = Inl e'"
    using definition_to_event_error [of td d rt body e] by simp
next
  assume a: "td \<in> set (map snd (traits d)) \<and> to_trait rt td body = Inl e \<and>
    map_of body ''event_type'' = Some (JStr et) \<and> map_of body ''message_id'' = Some mid \<and>
    select_definition (definitions c) et = Some d"
  then obtain e' where e': "definition_to_event rt d body = Inl e'"
    using definition_to_event_error [of td d rt body e] by auto
  from a have "converter_to_event rt c body = map_sum id Some (definition_to_event rt d body)"
    using converter_to_event_string [of body et mid rt c] by simp
  with e' have "converter_to_event rt c body = Inl e'" by simp
  then show "\<exists>e'. converter_to_event rt c body = Inl e'" ..
next
  assume a: "map_of body ''event_type'' = Some etv \<and> extract_when rt body = Inr w \<and>
    map snd (traits d) = pre @ td # post \<and>
    (\<forall>td' \<in> set pre. \<exists>r. to_trait rt td' body = Inr r) \<and> to_trait rt td body = Inl e"
  then have "collect_traits rt (pre @ td # post) body = Inl e"
    using collect_traits_first_error [of pre rt body td e post] by simp
  with a show "definition_to_event rt d body = Inl e"
    by (simp add: definition_to_event_def)
qed

theorem int_conversion_error_propagates_witness:
  "converter_to_event sample_runtime
     \<lparr>definitions = [\<lparr>included_types = [''test.*''], excluded_types = [],
        traits = [(''disk_gb'',
                     \<lparr>name = ''disk_gb'',
                      fields_path = Child (Fields ''payload'') (Fields ''disk_gb''),
                      trait_type = INT_TYPE\<rparr>)]\<rparr>]\<rparr>
     [(''event_type'', JStr ''test.thing''), (''message_id'', JStr ''uuid-4''),
      (''payload'', JDict [(''disk_gb'', JStr ''twenty'')])] = Inl ValueError \<and>
   converter_to_event sample_runtime
     \<lparr>definitions = [\<lparr>included_types = [''test.*''], excluded_types = [],
        traits = [(''disk_gb'',
                     \<lparr>name = ''disk_gb'',
                      fields_path = Child (Fields ''payload'') (Fields ''disk_gb''),
                      trait_type = INT_TYPE\<rparr>)]\<rparr>]\<rparr>
     [(''event_type'', JStr ''test.thing''), (''message_id'', JStr ''uuid-5''),
      (''payload'', JDict [(''disk_gb'', JStr ''20'')])] =
   Inr (Some \<lparr>event_name = JStr ''test.thing'', generated = ''2013-08-08 21:06:37'',
               event_traits = [\<lparr>trait_name = ''disk_gb'', dtype = INT_TYPE, trait_value = IntValue 20\<rparr>]\<rparr>) \<and>
   py_int (JStr ''20'') = Inr 20 \<and> py_int (JStr ''twenty'') = Inl ValueError"
proof -
  let ?td = "\<lparr>name = ''disk_gb'', fields_path = Child (Fields ''payload'') (Fields ''disk_gb''),
        trait_type = INT_TYPE\<rparr>"
  let ?d = "\<lparr>included_types = [''test.*''], excluded_types = [],
        traits = [(''disk_gb'',
                     \<lparr>name = ''disk_gb'',
                      fields_path = Child (Fields ''payload'') (Fields ''disk_gb''),
                      trait_type = INT_TYPE\<rparr>)]\<rparr>"
  let ?bad = "[(''event_type'', JStr ''test.thing''), (''message_id'', JStr ''uuid-4''),
      (''payload'', JDict [(''disk_gb'', JStr ''twenty'')])]"
  let ?good = "[(''event_type'', JStr ''test.thing''), (''message_id'', JStr ''uuid-5''),
      (''payload'', JDict [(''disk_gb'', JStr ''20'')])]"
  have p20: "py_int (JStr ''20'') = Inr 20"
    using int_conversion_error_propagates [THEN conjunct1, of "''20''"]
    by (simp add: is_digit_def digit_value_def lessThan_Suc numeral_2_eq_2)
  have ptw: "py_int (JStr ''twenty'') = Inl ValueError"
    using int_conversion_error_propagates [THEN conjunct2, THEN conjunct1, of "CHR ''t''" "''twenty''"]
    by (simp add: is_digit_def is_space_def)
  have f: "List.find (\<lambda>v. v \<noteq> JNull) (jsonpath_find (fields_path ?td) (JDict ?bad)) = Some (JStr ''twenty'')"
    by simp
  have tt: "to_trait sample_runtime ?td ?bad = Inl ValueError"
    using int_conversion_error_propagates [THEN conjunct2, THEN conjunct2, THEN conjunct1,
        of ?td ?bad "JStr ''twenty''" sample_runtime] f ptw
    by simp
  have w: "extract_when sample_runtime ?bad = Inr ''2013-08-08 21:06:37''"
    by (simp add: extract_when_def sample_runtime_def)
  have de: "definition_to_event sample_runtime ?d ?bad = Inl ValueError"
    using int_conversion_error_propagates [THEN conjunct2, THEN conjunct2, THEN conjunct2,
        THEN conjunct2, THEN conjunct2,
        of ?bad "JStr ''test.thing''" sample_runtime "''2013-08-08 21:06:37''" ?d "[]" ?td "[]" ValueError]
      w tt
    by simp
  have m: "match_type ?d ''test.thing''"
    by (simp add: match_type_def included_type_def excluded_type_def)
  have e1: "map_of ?bad ''event_type'' = Some (JStr ''test.thing'')"
    and m1: "map_of ?bad ''message_id'' = Some (JStr ''uuid-4'')" by simp_all
  have e2: "map_of ?good ''event_type'' = Some (JStr ''test.thing'')"
    and m2: "map_of ?good ''message_id'' = Some (JStr ''uuid-5'')" by simp_all
  have cb: "converter_to_event sample_runtime \<lparr>definitions = [?d]\<rparr> ?bad = Inl ValueError"
    using m de by (simp add: converter_to_event_string [OF e1 m1])
  have dg: "definition_to_event sample_runtime ?d ?good =
      Inr \<lparr>event_name = JStr ''test.thing'', generated = ''2013-08-08 21:06:37'',
               event_traits = [\<lparr>trait_name = ''disk_gb'', dtype = INT_TYPE, trait_value = IntValue 20\<rparr>]\<rparr>"
    using p20 by (simp add: definition_to_event_def extract_when_def to_trait_def sample_runtime_def)
  have cg: "converter_to_event sample_runtime \<lparr>definitions = [?d]\<rparr> ?good =
      Inr (Some \<lparr>event_name = JStr ''test.thing'', generated = ''2013-08-08 21:06:37'',
               event_traits = [\<lparr>trait_name = ''disk_gb'', dtype = INT_TYPE, trait_value = IntValue 20\<rparr>]\<rparr>)"
    using m dg by (simp add: converter_to_event_string [OF e2 m2])
  from cb cg p20 ptw show ?thesis by (intro conjI)
qed

end
